theory Spec2Isabelle
  imports Complex_Main "HOL-Library.AList"
begin

section \<open>Documents\<close>

text \<open>
  A parsed config document is a JSON value. An object keeps its members in order, as a
  JavaScript object does. Numbers are rationals: the documents of the claims carry
  integers, and \<open>type: "number"\<close> admits the others.
\<close>

datatype json =
    JNull
  | JBool bool
  | JNum rat
  | JStr string
  | JArr "json list"
  | JObj "(string \<times> json) list"

text \<open>Reading a member: \<open>None\<close> is JavaScript's \<open>undefined\<close>.\<close>

fun getField :: "json \<Rightarrow> string \<Rightarrow> json option" where
  "getField (JObj kvs) k = map_of kvs k"
| "getField d k = None"

text \<open>Assigning a member of an object, \<open>d[k] = v\<close>.\<close>

fun setField :: "string \<Rightarrow> json \<Rightarrow> json \<Rightarrow> json" where
  "setField k v (JObj kvs) = JObj (AList.update k v kvs)"
| "setField k v d = d"

text \<open>The object spread \<open>{...a, ...b}\<close>: a key of \<open>b\<close> that \<open>a\<close> has keeps its place
  and takes the new value, a new key goes to the end.\<close>

definition objSpread :: "(string \<times> 'a) list \<Rightarrow> (string \<times> 'a) list \<Rightarrow> (string \<times> 'a) list" where
  "objSpread a b = foldl (\<lambda>acc kv. AList.update (fst kv) (snd kv) acc) a b"

section \<open>Structural schemas and their validation\<close>

text \<open>
  The schema keywords that \<open>service.ts\<close> uses: \<open>type\<close>, \<open>nullable\<close>, \<open>pattern\<close>,
  \<open>const\<close>, \<open>properties\<close>, \<open>required\<close> and \<open>additionalProperties\<close>. Titles, descriptions
  and \<open>$id\<close> do not take part in validation and are left out.
\<close>

datatype jtype = TNull | TBoolean | TNumber | TInteger | TString | TArray | TObject

datatype 'a additional = Allowed | Forbidden | Conforming 'a

datatype schema =
  Schema
    (stype: jtype)
    (nullable: bool)
    (pattern: "string option")
    (sconst: "json option")
    (properties: "(string \<times> schema) list")
    (required: "string list")
    (additionalProperties: "schema additional")

datatype violation =
    KType jtype
  | KConst
  | KPattern string
  | KRequired string
  | KAdditionalProperty string

text \<open>A validation error: the path of the offending value in the document, and what it
  violates.\<close>

datatype verror = VError (instancePath: "string list") (violated: violation)

fun hasType :: "jtype \<Rightarrow> json \<Rightarrow> bool" where
  "hasType TNull JNull = True"
| "hasType TBoolean (JBool b) = True"
| "hasType TNumber (JNum r) = True"
| "hasType TInteger (JNum r) = (snd (quotient_of r) = 1)"
| "hasType TString (JStr s) = True"
| "hasType TArray (JArr xs) = True"
| "hasType TObject (JObj kvs) = True"
| "hasType t v = False"

text \<open>
  The validator of the JSON-schema library, on those keywords: the violations of a value,
  in the order in which the validator checks for them. \<open>re p s\<close> is the regular expression
  test of pattern \<open>p\<close> on \<open>s\<close>. A value of the wrong type is reported for its type alone;
  an object is checked for its required members, then for its members outside
  \<open>properties\<close>, then for those inside, in the order of the schema.
\<close>

fun validateSchema :: "(string \<Rightarrow> string \<Rightarrow> bool) \<Rightarrow> schema \<Rightarrow> string list \<Rightarrow> json \<Rightarrow> verror list" where
  "validateSchema re (Schema t n p c props req addl) path v =
     (if n \<and> v = JNull then []
      else if \<not> hasType t v then [VError path (KType t)]
      else
        (case c of None \<Rightarrow> [] | Some k \<Rightarrow> if v = k then [] else [VError path KConst])
        @ (case (p, v) of (Some pat, JStr s) \<Rightarrow> if re pat s then [] else [VError path (KPattern pat)]
           | _ \<Rightarrow> [])
        @ (case v of
             JObj kvs \<Rightarrow>
               map (\<lambda>r. VError path (KRequired r)) (filter (\<lambda>r. map_of kvs r = None) req)
               @ concat (map (\<lambda>kv. if map_of props (fst kv) \<noteq> None then []
                    else (case addl of
                            Allowed \<Rightarrow> []
                          | Forbidden \<Rightarrow> [VError path (KAdditionalProperty (fst kv))]
                          | Conforming a \<Rightarrow> validateSchema re a (path @ [fst kv]) (snd kv))) kvs)
               @ concat (map (\<lambda>ps. case map_of kvs (fst ps) of
                            None \<Rightarrow> []
                          | Some x \<Rightarrow> validateSchema re (snd ps) (path @ [fst ps]) x) props)
           | _ \<Rightarrow> []))"

text \<open>The validator stops at the first violation it finds, which is the one error that
  is reported for a document: the head of the list.\<close>

definition firstError :: "verror list \<Rightarrow> verror option" where
  "firstError es = (case es of [] \<Rightarrow> None | e # rest \<Rightarrow> Some e)"

section \<open>Missing parts of the repository, and the libraries\<close>

text \<open>The result \<open>true | string\<close> of a validity check.\<close>

datatype validity = VTrue | VString string

text \<open>
  The constants and helpers that \<open>service.ts\<close> imports from files that are not at hand
  (\<open>const.js\<close>, \<open>module.js\<close>, \<open>helpers/downloadFile.js\<close>, \<open>paths.js\<close>), and the libraries
  (regular expressions, YAML, terminal colours), enter every definition as one record of
  parameters.
\<close>

datatype node = File string | Dir "string list"

type_synonym fs = "string \<Rightarrow> node option"

record deps =
  BYTES_PATTERN :: string
  MAX_HEAP_SIZE_DESCRIPTION :: string
  SERVICE_CONFIG_FILE_NAME :: string
  overridableModuleProperties :: "(string \<times> schema) list"
  validateAquaName :: "string \<Rightarrow> validity"
  ensureServiceAbsolutePath :: "string \<Rightarrow> string \<Rightarrow> fs \<Rightarrow> string \<times> fs"
  getFluenceDir :: string
  regexTest :: "string \<Rightarrow> string \<Rightarrow> bool"
  yamlParse :: "string \<Rightarrow> json option"
  yamlStringify :: "json \<Rightarrow> string"
  yellow :: "string \<Rightarrow> string"
  configFilePath :: "string \<Rightarrow> string \<Rightarrow> string"

section \<open>The service config kind (\<open>service.ts\<close>)\<close>

definition stringSchema :: schema where
  "stringSchema = Schema TString False None None [] [] Allowed"

definition moduleSchemaForService :: "deps \<Rightarrow> schema" where
  "moduleSchemaForService E =
     Schema TObject False None None
       (objSpread [(''get'', stringSchema)] (overridableModuleProperties E))
       [''get'']
       Forbidden"

definition FACADE_MODULE_NAME :: string where
  "FACADE_MODULE_NAME = ''facade''"

definition overridableServiceProperties_properties :: "deps \<Rightarrow> (string \<times> schema) list" where
  "overridableServiceProperties_properties E =
     [(''totalMemoryLimit'', Schema TString True (Some (BYTES_PATTERN E)) None [] [] Allowed)]"

definition overridableServiceProperties_required :: "string list" where
  "overridableServiceProperties_required = []"

definition modulesSchema :: "deps \<Rightarrow> schema" where
  "modulesSchema E =
     Schema TObject False None None
       [(FACADE_MODULE_NAME, moduleSchemaForService E),
        (''Other_module_name'', moduleSchemaForService E)]
       [FACADE_MODULE_NAME]
       (Conforming (moduleSchemaForService E))"

definition configSchemaV0 :: "deps \<Rightarrow> schema" where
  "configSchemaV0 E =
     Schema TObject False None None
       (objSpread
          (objSpread [(''name'', stringSchema), (''modules'', modulesSchema E)]
             (overridableServiceProperties_properties E))
          [(''version'', Schema TNumber False None (Some (JNum 0)) [] [] Allowed)])
       ([''version'', ''name'', ''modules''] @ overridableServiceProperties_required)
       Forbidden"

definition isValidServiceModules :: "(string \<times> json) list \<Rightarrow> bool" where
  "isValidServiceModules arg = (map_of arg FACADE_MODULE_NAME \<noteq> None)"

definition migrations :: "(json \<Rightarrow> json) list" where
  "migrations = []"

text \<open>
  \<open>validate\<close> receives a config of type \<open>LatestConfig\<close>, whose \<open>name\<close> is a string: the
  cast from a document reads it. The engine passes documents that conform to
  \<open>configSchemaV0\<close>, where the first case applies.
\<close>

definition configName :: "json \<Rightarrow> string" where
  "configName config = (case getField config ''name'' of Some (JStr s) \<Rightarrow> s | _ \<Rightarrow> [])"

definition validate :: "deps \<Rightarrow> json \<Rightarrow> validity" where
  "validate E config =
     (let validity = validateAquaName E (configName config) in
      case validity of
        VTrue \<Rightarrow> VTrue
      | VString why \<Rightarrow> VString (''Invalid service name: '' @ why))"

section \<open>Errors and files\<close>

text \<open>
  Every way the modelled code stops early is a value: the error kinds of the config
  engine, \<open>commandObj.error\<close> (which ends the command with a message) and a thrown
  JavaScript \<open>Error\<close>. Each engine error carries the path of the file it is about.
\<close>

datatype error =
    ParseError string
  | VersionMismatch string
  | SchemaValidationError string "verror list"
  | SemanticValidationError string string
  | WriteError string
  | CommandError string
  | JSError string

text \<open>
  The file system maps a path to what stands there: a file with its content, or a
  directory with the names \<open>readdir\<close> lists. Writing replaces the file at the path and
  fails where a directory stands.
\<close>

definition existsSync :: "fs \<Rightarrow> string \<Rightarrow> bool" where
  "existsSync f p = (f p \<noteq> None)"

definition isDirectory :: "fs \<Rightarrow> string \<Rightarrow> bool" where
  "isDirectory f p = (case f p of Some (Dir es) \<Rightarrow> True | _ \<Rightarrow> False)"

definition readdir :: "fs \<Rightarrow> string \<Rightarrow> string list" where
  "readdir f p = (case f p of Some (Dir es) \<Rightarrow> es | _ \<Rightarrow> [])"

definition readFile :: "fs \<Rightarrow> string \<Rightarrow> string option" where
  "readFile f p = (case f p of Some (File c) \<Rightarrow> Some c | _ \<Rightarrow> None)"

definition writeFile :: "fs \<Rightarrow> string \<Rightarrow> string \<Rightarrow> error + fs" where
  "writeFile f p c = (case f p of Some (Dir es) \<Rightarrow> Inl (WriteError p) | _ \<Rightarrow> Inr (f(p \<mapsto> File c)))"

definition mkdirRecursive :: "fs \<Rightarrow> string \<Rightarrow> error + fs" where
  "mkdirRecursive f p =
     (case f p of
        None \<Rightarrow> Inr (f(p \<mapsto> Dir []))
      | Some (Dir es) \<Rightarrow> Inr f
      | Some (File c) \<Rightarrow> Inl (WriteError p))"

section \<open>The config engine\<close>

text \<open>
  The engine (\<open>initConfig.js\<close>: \<open>getConfigInitFunction\<close>,
  \<open>getReadonlyConfigInitFunction\<close>, the handle's \<open>$commit\<close>) is imported by \<open>service.ts\<close>
  and is not among the files at hand. Its types are read off their use in
  \<open>getInitConfigOptions\<close>; its behaviour is modelled from the specification. The members
  \<open>migrations\<close>, \<open>name\<close> and \<open>validate\<close> of the options are \<open>optMigrations\<close>, \<open>optName\<close>
  and \<open>optValidate\<close> here: the constants of \<open>service.ts\<close> keep those names.
\<close>

record InitConfigOptions =
  allSchemas :: "schema list"
  latestSchema :: schema
  optMigrations :: "(json \<Rightarrow> json) list"
  optName :: string
  getSchemaDirPath :: string
  getConfigOrConfigDirPath :: string
  optValidate :: "(json \<Rightarrow> validity) option"

record InitializedConfig =
  cfgValue :: json
  cfgPath :: string

text \<open>Modelled from the spec: the schema registry of the absent engine. Versions count
  from 0, one schema each, and the highest is the latest.\<close>

definition latestVersion :: "InitConfigOptions \<Rightarrow> nat" where
  "latestVersion opts = length (allSchemas opts) - 1"

text \<open>Modelled from the spec: the absent engine reads the declared version from the
  integer \<open>version\<close> member embedded in the document.\<close>

definition declaredVersion :: "json \<Rightarrow> rat option" where
  "declaredVersion d = (case getField d ''version'' of Some (JNum r) \<Rightarrow> Some r | _ \<Rightarrow> None)"

text \<open>Modelled from the spec: the absent engine's version resolution. The declared
  version selects a schema of the registry when it is the number of one; a document
  that declares no such version has none.\<close>

definition versionIndex :: "InitConfigOptions \<Rightarrow> json \<Rightarrow> nat option" where
  "versionIndex opts d =
     (case declaredVersion d of
        None \<Rightarrow> None
      | Some r \<Rightarrow> find (\<lambda>n. of_nat n = r) [0 ..< length (allSchemas opts)])"

text \<open>Modelled from the spec: the absent engine's migration chain. Migration \<open>k\<close> takes a
  document of version \<open>k\<close> to version \<open>k + 1\<close>; they are applied in ascending order from
  the declared version until the latest is reached, and a document already at the latest
  version is returned as it is (by version equality). A missing step is a version
  mismatch (\<open>None\<close>).\<close>

function migrateFrom :: "(json \<Rightarrow> json) list \<Rightarrow> nat \<Rightarrow> nat \<Rightarrow> json \<Rightarrow> json option" where
  "migrateFrom migs latest v d =
     (if latest \<le> v then Some d
      else if v < length migs then migrateFrom migs latest (Suc v) ((migs ! v) d)
      else None)"
  by pat_completeness auto
termination
  by (relation "measure (\<lambda>(migs, latest, v, d). latest - v)") auto

text \<open>Modelled from the spec: the absent engine's validator. Structural conformance to
  the latest schema first, every violation reported with its path; the kind's semantic
  check only once that passes. Both failures are values.\<close>

definition validateConfig :: "deps \<Rightarrow> InitConfigOptions \<Rightarrow> string \<Rightarrow> json \<Rightarrow> error + json" where
  "validateConfig E opts path d =
     (case validateSchema (regexTest E) (latestSchema opts) [] d of
        [] \<Rightarrow>
          (case optValidate opts of
             None \<Rightarrow> Inr d
           | Some check \<Rightarrow>
               (case check d of
                  VTrue \<Rightarrow> Inr d
                | VString why \<Rightarrow> Inl (SemanticValidationError path why)))
      | e # es \<Rightarrow> Inl (SchemaValidationError path (e # es)))"

text \<open>Modelled from the spec: the absent engine's pipeline on the content of a file:
  parse, read the declared version, migrate to the latest version, validate.\<close>

definition loadConfig :: "deps \<Rightarrow> InitConfigOptions \<Rightarrow> string \<Rightarrow> string \<Rightarrow> error + json" where
  "loadConfig E opts path content =
     (case yamlParse E content of
        None \<Rightarrow> Inl (ParseError path)
      | Some d \<Rightarrow>
          (case versionIndex opts d of
             None \<Rightarrow> Inl (VersionMismatch path)
           | Some v \<Rightarrow>
               (case migrateFrom (optMigrations opts) (latestVersion opts) v d of
                  None \<Rightarrow> Inl (VersionMismatch path)
                | Some d' \<Rightarrow> validateConfig E opts path d')))"

text \<open>Modelled from the spec: on success the absent engine returns a handle that wraps
  the validated value and is bound to the file path.\<close>

definition asHandle :: "string \<Rightarrow> error + json \<Rightarrow> error + InitializedConfig option" where
  "asHandle path r =
     (case r of Inl e \<Rightarrow> Inl e | Inr d \<Rightarrow> Inr (Some \<lparr>cfgValue = d, cfgPath = path\<rparr>))"

text \<open>Modelled from the spec: \<open>open\<close> of the absent engine, in mutable mode. The file
  path is resolved from the kind's location and name. An absent file is created from the
  default template when a generator is given, and is otherwise not found: the result
  \<open>null\<close> that the declared type \<open>InitializedConfig | null\<close> of \<open>initServiceConfig\<close> allows
  (\<open>Inr None\<close>). The second component is the file system afterwards.\<close>

definition getConfigInitFunction ::
  "deps \<Rightarrow> InitConfigOptions \<Rightarrow> string option \<Rightarrow> fs \<Rightarrow> (error + InitializedConfig option) \<times> fs" where
  "getConfigInitFunction E opts getDefaultConfig f =
     (let path = configFilePath E (getConfigOrConfigDirPath opts) (optName opts) in
      case readFile f path of
        Some content \<Rightarrow> (asHandle path (loadConfig E opts path content), f)
      | None \<Rightarrow>
          (case getDefaultConfig of
             None \<Rightarrow> (Inr None, f)
           | Some template \<Rightarrow>
               (case writeFile f path template of
                  Inl e \<Rightarrow> (Inl e, f)
                | Inr f' \<Rightarrow> (asHandle path (loadConfig E opts path template), f'))))"

text \<open>Modelled from the spec: read-only \<open>open\<close> of the absent engine. The same
  pipeline; the handle it returns has no commit, which is a restriction of its type.\<close>

definition getReadonlyConfigInitFunction ::
  "deps \<Rightarrow> InitConfigOptions \<Rightarrow> string option \<Rightarrow> fs \<Rightarrow> (error + InitializedConfig option) \<times> fs" where
  "getReadonlyConfigInitFunction E opts getDefaultConfig f = getConfigInitFunction E opts getDefaultConfig f"

text \<open>Modelled from the spec: the version of the serialized value is forced to the latest
  (the absent engine's commit).\<close>

definition forceVersion :: "nat \<Rightarrow> json \<Rightarrow> json" where
  "forceVersion v d =
     (case d of
        JObj kvs \<Rightarrow> JObj (AList.update ''version'' (JNum (of_nat v)) kvs)
      | _ \<Rightarrow> JObj [(''version'', JNum (of_nat v))])"

text \<open>Modelled from the spec: \<open>$commit\<close> of the absent engine re-serializes the current
  in-memory value, its version forced to the latest, and overwrites the file the handle
  is bound to.\<close>

definition commit :: "deps \<Rightarrow> InitConfigOptions \<Rightarrow> InitializedConfig \<Rightarrow> fs \<Rightarrow> error + fs" where
  "commit E opts h f =
     writeFile f (cfgPath h) (yamlStringify E (forceVersion (latestVersion opts) (cfgValue h)))"

section \<open>Opening service configs (\<open>service.ts\<close>)\<close>

definition getInitConfigOptions :: "deps \<Rightarrow> string \<Rightarrow> InitConfigOptions" where
  "getInitConfigOptions E configDirPath =
     \<lparr>allSchemas = [configSchemaV0 E],
      latestSchema = configSchemaV0 E,
      optMigrations = migrations,
      optName = SERVICE_CONFIG_FILE_NAME E,
      getSchemaDirPath = getFluenceDir E,
      getConfigOrConfigDirPath = configDirPath,
      optValidate = Some (validate E)\<rparr>"

definition initServiceConfig ::
  "deps \<Rightarrow> string \<Rightarrow> string \<Rightarrow> fs \<Rightarrow> (error + InitializedConfig option) \<times> fs" where
  "initServiceConfig E configOrConfigDirPathOrUrl absolutePath f =
     (case ensureServiceAbsolutePath E configOrConfigDirPathOrUrl absolutePath f of
        (resolved, f1) \<Rightarrow> getConfigInitFunction E (getInitConfigOptions E resolved) None f1)"

text \<open>The optional chain \<open>a?.[k]\<close>.\<close>

definition optChain :: "json option \<Rightarrow> string \<Rightarrow> json option" where
  "optChain a k = (case a of None \<Rightarrow> None | Some JNull \<Rightarrow> None | Some d \<Rightarrow> getField d k)"

text \<open>\<open>maybeFluenceConfig?.services?.[nameOrPathOrUrl]?.get\<close>, a string where it is
  defined.\<close>

definition maybeServicePathFromFluenceConfig :: "json option \<Rightarrow> string \<Rightarrow> string option" where
  "maybeServicePathFromFluenceConfig maybeFluenceConfig nameOrPathOrUrl =
     (case optChain (optChain (optChain maybeFluenceConfig ''services'') nameOrPathOrUrl) ''get'' of
        Some (JStr s) \<Rightarrow> Some s
      | _ \<Rightarrow> None)"

text \<open>\<open>maybeServicePathFromFluenceConfig ?? nameOrPathOrUrl\<close>.\<close>

definition serviceOrServiceDirPathOrUrl :: "json option \<Rightarrow> string \<Rightarrow> string" where
  "serviceOrServiceDirPathOrUrl maybeFluenceConfig nameOrPathOrUrl =
     (case maybeServicePathFromFluenceConfig maybeFluenceConfig nameOrPathOrUrl of
        Some s \<Rightarrow> s
      | None \<Rightarrow> nameOrPathOrUrl)"

text \<open>The directory that a relative path is resolved against is chosen by
  \<open>maybeServicePathFromFluenceConfig === "string"\<close>, a comparison with the string
  \<open>string\<close>, as the source has it. \<open>projectRootDir\<close> (of \<open>paths.js\<close>) and \<open>cwd()\<close> are
  arguments here.\<close>

definition ensureServiceConfig ::
  "deps \<Rightarrow> string \<Rightarrow> string \<Rightarrow> string \<Rightarrow> json option \<Rightarrow> fs \<Rightarrow> (error + InitializedConfig) \<times> fs" where
  "ensureServiceConfig E rootDir cwd nameOrPathOrUrl maybeFluenceConfig f =
     (case initServiceConfig E (serviceOrServiceDirPathOrUrl maybeFluenceConfig nameOrPathOrUrl)
             (if maybeServicePathFromFluenceConfig maybeFluenceConfig nameOrPathOrUrl = Some ''string''
              then rootDir else cwd) f of
        (Inl e, f') \<Rightarrow> (Inl e, f')
      | (Inr None, f') \<Rightarrow>
          (Inl (CommandError (''No service config found at ''
                  @ yellow E (serviceOrServiceDirPathOrUrl maybeFluenceConfig nameOrPathOrUrl))), f')
      | (Inr (Some serviceConfig), f') \<Rightarrow> (Inr serviceConfig, f'))"

definition initReadonlyServiceConfig ::
  "deps \<Rightarrow> string \<Rightarrow> string \<Rightarrow> fs \<Rightarrow> (error + InitializedConfig option) \<times> fs" where
  "initReadonlyServiceConfig E configOrConfigDirPathOrUrl absolutePath f =
     (case ensureServiceAbsolutePath E configOrConfigDirPathOrUrl absolutePath f of
        (resolved, f1) \<Rightarrow> getReadonlyConfigInitFunction E (getInitConfigOptions E resolved) None f1)"


section \<open>The default template of a service config (\<open>service.ts\<close>)\<close>

abbreviation (input) sq :: string where "sq \<equiv> [CHR 0x27]"
abbreviation (input) dq :: string where "dq \<equiv> [CHR 0x22]"
abbreviation (input) bq :: string where "bq \<equiv> [CHR 0x60]"

text \<open>The lines of a text, each ended by a line feed.\<close>

definition unlines :: "string list \<Rightarrow> string" where
  "unlines ls = concat (map (\<lambda>l. l @ [CHR 0x0A]) ls)"

text \<open>The template literal of \<open>getDefault\<close>, line by line; \<open>sq\<close>, \<open>dq\<close> and \<open>bq\<close> are the
  single quote, the double quote and the backquote.\<close>

definition getDefault :: "deps \<Rightarrow> string \<Rightarrow> string \<Rightarrow> string" where
  "getDefault E relativePathToFacade name =
     unlines
       [''# Defines a [Marine service](https://fluence.dev/docs/build/concepts/#services),'',
        ''# most importantly the modules that the service consists of.'',
        ''# You can use '' @ bq @ ''fluence service new'' @ bq @ '' command to generate a template for new service'',
        [],
        ''# config version'',
        ''version: 0'',
        [],
        ''# Service name.'',
        ''# Currently it is used for the service name only when you add service to fluence.yaml using '' @ dq @ ''add'' @ dq @ '' command.'',
        ''# But this name can be overridden to any other with the --name flag or manually in fluence.yaml'',
        ''name: '' @ name,
        [],
        ''# A map of modules that the service consists of.'',
        ''# Service must have a facade module. Each module properties can be overridden'',
        ''modules:'',
        ''  facade:'',
        ''    # Either path to the module directory or'',
        ''    # URL to the tar.gz archive which contains the content of the module directory'',
        ''    get: '' @ sq @ relativePathToFacade @ sq,
        [],
        ''    # You can override module configuration here:'',
        [],
        ''#     # environment variables accessible by a particular module'',
        ''#     # with standard Rust env API like this: std::env::var(IPFS_ADDR_ENV_NAME)'',
        ''#     # Module environment variables could be examined with repl'',
        ''#     envs:'',
        ''#       ENV_VARIABLE: '' @ dq @ ''env variable string value'' @ dq,
        ''#'',
        ''#     # Set true to allow module to use the Marine SDK logger'',
        ''#     loggerEnabled: true'',
        ''#'',
        ''#     # manages the logging targets, described in detail: https://fluence.dev/docs/marine-book/marine-rust-sdk/developing/logging#using-target-map'',
        ''#     loggingMask: 1'',
        ''#'',
        ''#     # '' @ MAX_HEAP_SIZE_DESCRIPTION E,
        ''#     maxHeapSize: 1KiB'',
        ''#'',
        ''#     # A map of binary executable files that module is allowed to call'',
        ''#     mountedBinaries:'',
        ''#       curl: '' @ dq @ ''/usr/bin/curl'' @ dq,
        ''#'',
        ''#     # A map of accessible files and their aliases.'',
        ''#     # Aliases should be used in Marine module development because it'' @ sq @ ''s hard to know the full path to a file'',
        ''#     volumes:'',
        ''#       alias: '' @ dq @ ''some/alias/path'' @ dq]"

definition initNewReadonlyServiceConfig ::
  "deps \<Rightarrow> string \<Rightarrow> string \<Rightarrow> string \<Rightarrow> fs \<Rightarrow> (error + InitializedConfig option) \<times> fs" where
  "initNewReadonlyServiceConfig E configPath relativePathToFacade name f =
     getReadonlyConfigInitFunction E (getInitConfigOptions E configPath)
       (Some (getDefault E relativePathToFacade name)) f"

section \<open>The YAML fragment of the service template\<close>

text \<open>
  The YAML library is outside the repository. What it does on the fragment of YAML that
  the default template is written in is modelled here: lines that are blank or comments,
  and block mappings by indentation whose keys are plain words and whose values are plain
  scalars (resolved by the core schema: null, booleans, decimal integers, strings) or
  single-quoted scalars on one line. A text is parsed to a document, or has a syntax
  error that any YAML parser reports, or leaves the fragment, where the model says
  nothing.
\<close>

datatype yaml = Parsed json | SyntaxError | OutsideFragment

datatype yline = Blank | Entry nat string "json option" | BadLine | OtherLine

fun splitLines :: "string \<Rightarrow> string list" where
  "splitLines [] = [[]]"
| "splitLines (c # cs) =
     (if c = CHR 0x0A then [] # splitLines cs
      else (case splitLines cs of l # ls \<Rightarrow> (c # l) # ls | [] \<Rightarrow> [[c]]))"

definition isSpace :: "char \<Rightarrow> bool" where
  "isSpace c = (c = CHR '' '')"

definition isDigit :: "char \<Rightarrow> bool" where
  "isDigit c = (c \<in> set ''0123456789'')"

definition isKeyChar :: "char \<Rightarrow> bool" where
  "isKeyChar c =
     (c \<in> set ''abcdefghijklmnopqrstuvwxyzABCDEFGHIJKLMNOPQRSTUVWXYZ0123456789_'')"

definition isPrintable :: "char \<Rightarrow> bool" where
  "isPrintable c = (32 \<le> (of_char c :: nat) \<and> (of_char c :: nat) < 127)"

definition decimal :: "string \<Rightarrow> nat" where
  "decimal s = foldl (\<lambda>n c. 10 * n + (of_char c - 48)) 0 s"

text \<open>A plain scalar by the core schema; \<open>None\<close> for the number forms other than a
  decimal integer.\<close>

definition plainScalar :: "string \<Rightarrow> json option" where
  "plainScalar s =
     (if s \<in> set [''null'', ''Null'', ''NULL'', ''~''] then Some JNull
      else if s \<in> set [''true'', ''True'', ''TRUE''] then Some (JBool True)
      else if s \<in> set [''false'', ''False'', ''FALSE''] then Some (JBool False)
      else (case s of
              [] \<Rightarrow> None
            | c # cs \<Rightarrow>
                if isDigit c then
                  (if list_all isDigit cs then Some (JNum (of_nat (decimal s))) else None)
                else if c = CHR ''+'' then
                  (if cs \<noteq> [] \<and> list_all isDigit cs then Some (JNum (of_nat (decimal cs))) else None)
                else if c = CHR ''-'' then
                  (if cs \<noteq> [] \<and> list_all isDigit cs then Some (JNum (- of_nat (decimal cs))) else None)
                else if c = CHR ''.'' then None
                else Some (JStr s)))"

text \<open>The text of a single-quoted scalar after its opening quote, and what follows its
  closing quote; two quotes stand for one. \<open>None\<close> when the line ends first.\<close>

fun scanQuoted :: "string \<Rightarrow> (string \<times> string) option" where
  "scanQuoted [] = None"
| "scanQuoted (c # cs) =
     (if c = CHR 0x27 then
        (case cs of
           [] \<Rightarrow> Some ([], [])
         | d # ds \<Rightarrow>
             if d = CHR 0x27 then map_option (\<lambda>sr. (CHR 0x27 # fst sr, snd sr)) (scanQuoted ds)
             else Some ([], cs))
      else map_option (\<lambda>sr. (c # fst sr, snd sr)) (scanQuoted cs))"

text \<open>A plain scalar ends where a comment starts: at a \<open>#\<close> after a space.\<close>

fun cutComment :: "string \<Rightarrow> string" where
  "cutComment [] = []"
| "cutComment (c # cs) =
     (if isSpace c \<and> (case cs of d # ds \<Rightarrow> d = CHR ''#'' | [] \<Rightarrow> False) then []
      else c # cutComment cs)"

definition stripRight :: "string \<Rightarrow> string" where
  "stripRight s = rev (dropWhile isSpace (rev s))"

fun hasColonSpace :: "string \<Rightarrow> bool" where
  "hasColonSpace [] = False"
| "hasColonSpace [c] = (c = CHR '':'')"
| "hasColonSpace (c # d # cs) = ((c = CHR '':'' \<and> isSpace d) \<or> hasColonSpace (d # cs))"

definition parseValue :: "nat \<Rightarrow> string \<Rightarrow> string \<Rightarrow> yline" where
  "parseValue indent k v =
     (if v = [] \<or> hd v = CHR ''#'' then Entry indent k None
      else if hd v = CHR 0x27 then
        (case scanQuoted (tl v) of
           None \<Rightarrow> OtherLine
         | Some sr \<Rightarrow>
             (let t = dropWhile isSpace (snd sr) in
              if t = [] \<or> (hd t = CHR ''#'' \<and> isSpace (hd (snd sr))) then Entry indent k (Some (JStr (fst sr)))
              else BadLine))
      else if hd v \<in> set ([CHR 0x22, CHR 0x60] @ ''[]{},&*!|>%@'') then OtherLine
      else if hd v \<in> set ''?-:'' \<and> (tl v = [] \<or> isSpace (hd (tl v))) then OtherLine
      else
        (let p = stripRight (cutComment v) in
         if hasColonSpace p then OtherLine
         else (case plainScalar p of None \<Rightarrow> OtherLine | Some j \<Rightarrow> Entry indent k (Some j))))"

definition parseLine :: "string \<Rightarrow> yline" where
  "parseLine line =
     (let body = dropWhile isSpace line; indent = length (takeWhile isSpace line) in
      if body = [] \<or> hd body = CHR ''#'' then Blank
      else if \<not> list_all isPrintable line then OtherLine
      else
        (let k = takeWhile (\<lambda>c. c \<noteq> CHR '':'') body;
             rest = dropWhile (\<lambda>c. c \<noteq> CHR '':'') body
         in if k = [] \<or> \<not> list_all isKeyChar k \<or> rest = [] then OtherLine
            else if tl rest = [] then Entry indent k None
            else if \<not> isSpace (hd (tl rest)) then OtherLine
            else parseValue indent k (dropWhile isSpace (tl rest))))"

text \<open>Adding a member at a path of keys; a key whose value is still null becomes a
  mapping with its first member. \<open>None\<close> on a duplicate key.\<close>

fun insertAt :: "string list \<Rightarrow> json \<Rightarrow> json \<Rightarrow> json option" where
  "insertAt [] v d = None"
| "insertAt (k # ks) v d =
     (case (case d of JNull \<Rightarrow> Some [] | JObj kvs \<Rightarrow> Some kvs | _ \<Rightarrow> None) of
        None \<Rightarrow> None
      | Some kvs \<Rightarrow>
          (if ks = [] then
             (if map_of kvs k = None then Some (JObj (kvs @ [(k, v)])) else None)
           else
             (case map_of kvs k of
                None \<Rightarrow> None
              | Some child \<Rightarrow>
                  (case insertAt ks v child of
                     None \<Rightarrow> None
                   | Some c \<Rightarrow> Some (JObj (AList.update k c kvs))))))"

text \<open>
  The state while the lines are read: the open block mappings, innermost first, each with
  the indentation of its keys and its path; the key that has no value yet and may open a
  block below it (at the start, the document itself, at indentation \<open>-1\<close>); the document
  so far.
\<close>

type_synonym ystate = "(nat \<times> string list) list \<times> (int \<times> string list) option \<times> json"

definition addEntry :: "nat \<Rightarrow> string \<Rightarrow> json option \<Rightarrow> ystate \<Rightarrow> ystate option" where
  "addEntry i k v st =
     (case st of (blocks, pending, doc) \<Rightarrow>
        (let blocks1 = (case pending of
                          Some pp \<Rightarrow> if fst pp < int i then (i, snd pp) # blocks else blocks
                        | None \<Rightarrow> blocks);
             blocks2 = dropWhile (\<lambda>b. i < fst b) blocks1
         in case blocks2 of
              [] \<Rightarrow> None
            | b # bs \<Rightarrow>
                if fst b \<noteq> i then None
                else (case insertAt (snd b @ [k]) (case v of None \<Rightarrow> JNull | Some x \<Rightarrow> x) doc of
                        None \<Rightarrow> None
                      | Some doc' \<Rightarrow>
                          Some (blocks2, (if v = None then Some (int i, snd b @ [k]) else None), doc'))))"

fun buildDoc :: "yline list \<Rightarrow> ystate \<Rightarrow> yaml" where
  "buildDoc [] st = Parsed (snd (snd st))"
| "buildDoc (Blank # ls) st = buildDoc ls st"
| "buildDoc (BadLine # ls) st = SyntaxError"
| "buildDoc (OtherLine # ls) st = OutsideFragment"
| "buildDoc (Entry i k v # ls) st =
     (case addEntry i k v st of None \<Rightarrow> SyntaxError | Some st' \<Rightarrow> buildDoc ls st')"

definition parseYaml :: "string \<Rightarrow> yaml" where
  "parseYaml content = buildDoc (map parseLine (splitLines content)) ([], Some (- 1, []), JNull)"

definition parseYamlOption :: "string \<Rightarrow> json option" where
  "parseYamlOption content = (case parseYaml content of Parsed d \<Rightarrow> Some d | _ \<Rightarrow> None)"

text \<open>A serializer into the fragment: block mappings two spaces deep, strings in single
  quotes, integers in decimal.\<close>

fun showNat :: "nat \<Rightarrow> string" where
  "showNat n =
     (if n < 10 then [char_of (48 + n)] else showNat (n div 10) @ [char_of (48 + n mod 10)])"

definition showScalar :: "json \<Rightarrow> string" where
  "showScalar v =
     (case v of
        JNull \<Rightarrow> ''null''
      | JBool b \<Rightarrow> (if b then ''true'' else ''false'')
      | JNum r \<Rightarrow>
          (let a = fst (quotient_of r) in if a < 0 then ''-'' @ showNat (nat (- a)) else showNat (nat a))
      | JStr s \<Rightarrow> sq @ concat (map (\<lambda>c. if c = CHR 0x27 then [c, c] else [c]) s) @ sq
      | JArr xs \<Rightarrow> ''[]''
      | JObj kvs \<Rightarrow> ''{}'')"

fun showLines :: "nat \<Rightarrow> json \<Rightarrow> string list" where
  "showLines n (JObj kvs) =
     concat (map (\<lambda>kv.
        (case snd kv of
           JObj (m # ms) \<Rightarrow> (replicate n (CHR '' '') @ fst kv @ '':'') # showLines (n + 2) (snd kv)
         | _ \<Rightarrow> [replicate n (CHR '' '') @ fst kv @ '': '' @ showScalar (snd kv)])) kvs)"
| "showLines n v = [showScalar v]"

definition stringifyYaml :: "json \<Rightarrow> string" where
  "stringifyYaml d = unlines (showLines 0 d)"

section \<open>The environment variable of the network (\<open>setupEnvironment.ts\<close>)\<close>

definition FLUENCE_ENV :: string where
  "FLUENCE_ENV = ''FLUENCE_ENV''"

text \<open>\<open>process.env\<close> maps a variable to its value, where it is set. A thrown \<open>Error\<close> is
  \<open>JSError\<close> with its message.\<close>

definition resolveEnvVariable ::
  "(string \<Rightarrow> string option) \<Rightarrow> string \<Rightarrow> (string \<Rightarrow> bool) \<Rightarrow> string \<Rightarrow> error + string" where
  "resolveEnvVariable env variableName isValid defaultVariable =
     (case env variableName of
        None \<Rightarrow> Inr defaultVariable
      | Some variable \<Rightarrow>
          if \<not> isValid variable then
            Inl (JSError (''Invalid environment variable: '' @ variableName @ ''='' @ dq @ variable @ dq))
          else Inr variable)"

text \<open>The validity predicate of the module: \<open>NETWORKS.some((n) => n === v) || v === "local"\<close>.
  \<open>NETWORKS\<close> comes from \<open>multiaddr\<close>, which is not at hand, and is a parameter.\<close>

definition isFluenceEnv :: "string list \<Rightarrow> string \<Rightarrow> bool" where
  "isFluenceEnv NETWORKS v = (list_ex (\<lambda>n. n = v) NETWORKS \<or> v = ''local'')"

text \<open>What the module does when it is loaded: \<open>dotenv.config()\<close> (a parameter: it extends
  the environment from a file), then the assignment to \<open>process.env[FLUENCE_ENV]\<close>. The
  result is the environment afterwards, or the error thrown.\<close>

definition setupEnvironment ::
  "((string \<Rightarrow> string option) \<Rightarrow> (string \<Rightarrow> string option)) \<Rightarrow> string list \<Rightarrow>
   (string \<Rightarrow> string option) \<Rightarrow> error + (string \<Rightarrow> string option)" where
  "setupEnvironment dotenvConfig NETWORKS env0 =
     (let env = dotenvConfig env0 in
      case resolveEnvVariable env FLUENCE_ENV (isFluenceEnv NETWORKS) ''kras'' of
        Inl e \<Rightarrow> Inl e
      | Inr v \<Rightarrow> Inr (env(FLUENCE_ENV \<mapsto> v)))"

section \<open>Project initialisation (\<open>init.ts\<close>)\<close>

datatype Template = Minimal | Js | Ts

definition templateName :: "Template \<Rightarrow> string" where
  "templateName t = (case t of Minimal \<Rightarrow> ''minimal'' | Js \<Rightarrow> ''js'' | Ts \<Rightarrow> ''ts'')"

text \<open>The state of the process that \<open>init\<close> acts on: the files, the project root that
  \<open>setProjectRootDir\<close> sets, the analytics events and the lines logged.\<close>

record World =
  files :: fs
  projectRootDir :: string
  countlyEvents :: "string list"
  logged :: "string list"

type_synonym 'a io = "World \<Rightarrow> (error + 'a) \<times> World"

definition pureIO :: "'a \<Rightarrow> 'a io" where
  "pureIO a w = (Inr a, w)"

definition failIO :: "error \<Rightarrow> 'a io" where
  "failIO e w = (Inl e, w)"

text \<open>Sequencing of awaited steps: an error ends the function.\<close>

definition bindIO :: "'a io \<Rightarrow> ('a \<Rightarrow> 'b io) \<Rightarrow> 'b io" where
  "bindIO m k w = (case m w of (Inl e, w') \<Rightarrow> (Inl e, w') | (Inr a, w') \<Rightarrow> k a w')"

definition ioWriteFile :: "string \<Rightarrow> string \<Rightarrow> unit io" where
  "ioWriteFile p c w =
     (case writeFile (files w) p c of
        Inl e \<Rightarrow> (Inl e, w)
      | Inr f \<Rightarrow> (Inr (), w\<lparr>files := f\<rparr>))"

definition ioMkdir :: "string \<Rightarrow> unit io" where
  "ioMkdir p w =
     (case mkdirRecursive (files w) p of
        Inl e \<Rightarrow> (Inl e, w)
      | Inr f \<Rightarrow> (Inr (), w\<lparr>files := f\<rparr>))"

definition setProjectRootDir :: "string \<Rightarrow> unit io" where
  "setProjectRootDir p w = (Inr (), w\<lparr>projectRootDir := p\<rparr>)"

definition countlyAddEvent :: "string \<Rightarrow> unit io" where
  "countlyAddEvent k w = (Inr (), w\<lparr>countlyEvents := countlyEvents w @ [k]\<rparr>)"

definition commandLog :: "string \<Rightarrow> unit io" where
  "commandLog s w = (Inr (), w\<lparr>logged := logged w @ [s]\<rparr>)"

text \<open>
  What \<open>init.ts\<close> imports and is not at hand: the answers of the prompts, the process
  (\<open>isInteractive\<close>, \<open>process.cwd()\<close>), \<open>node:path\<close>, the colours, \<open>JSON.stringify\<close>, the
  constants of \<open>const.js\<close> and \<open>versions.json\<close>, and the functions of \<open>paths.js\<close>,
  \<open>configs/project\<close>, \<open>deployWorkers.js\<close> and \<open>helpers\<close>, each acting on the state. The
  project config is a handle of the engine, of the kind \<open>projectOptions\<close>.
\<close>

record initDeps =
  selectTemplateAnswer :: Template
  inputAnswer :: string
  isInteractive :: bool
  processCwd :: string
  pathResolve :: "string \<Rightarrow> string"
  pathJoin :: "string list \<Rightarrow> string"
  pathRelative :: "string \<Rightarrow> string \<Rightarrow> string"
  colorYellow :: "string \<Rightarrow> string"
  colorMagentaBright :: "string \<Rightarrow> string"
  replaceHomeDir :: "string \<Rightarrow> string"
  jsonStringify :: "json \<Rightarrow> string"
  jsonStringifyIndent2 :: "json \<Rightarrow> string"
  jsonStringifyCompact :: "json \<Rightarrow> string"
  RECOMMENDED_GITIGNORE_CONTENT :: string
  PACKAGE_JSON_FILE_NAME :: string
  INDEX_JS_FILE_NAME :: string
  INDEX_TS_FILE_NAME :: string
  SRC_DIR_NAME :: string
  TEMPLATE_INDEX_FILE_CONTENT :: string
  TYPESCRIPT_RECOMMENDED_VERSION :: string
  TS_NODE_RECOMMENDED_VERSION :: string
  TS_CONFIG_FILE_NAME :: string
  JS_CLIENT_NODE_NPM_DEPENDENCY :: string
  JS_CLIENT_API_NPM_DEPENDENCY :: string
  FLUENCE_NETWORK_ENVIRONMENT_NPM_DEPENDENCY :: string
  versionsNpm :: "string \<Rightarrow> json"
  projectOptions :: InitConfigOptions
  initNewFluenceConfig :: "InitializedConfig io"
  initNewWorkersConfig :: "InitializedConfig io"
  ensureAquaFileWithWorkerInfo :: "InitializedConfig \<Rightarrow> InitializedConfig \<Rightarrow> unit io"
  ensureAquaImports :: "bool \<Rightarrow> InitializedConfig \<Rightarrow> unit io"
  ensureDefaultAquaJSPath :: "string io"
  ensureDefaultAquaTSPath :: "string io"
  ensureDefaultJSDirPath :: "string io"
  ensureDefaultTSDirPath :: "string io"
  ensureFluenceAquaServicesPath :: "string io"
  ensureVSCodeExtensionsJsonPath :: "string io"
  getGitignorePath :: "World \<Rightarrow> string"

record InitArg =
  maybeProjectPath :: "string option"
  template :: "Template option"

text \<open>\<open>fluenceConfig.$commit()\<close>.\<close>

definition ioCommit :: "deps \<Rightarrow> InitConfigOptions \<Rightarrow> InitializedConfig \<Rightarrow> unit io" where
  "ioCommit E opts h w =
     (case commit E opts h (files w) of
        Inl e \<Rightarrow> (Inl e, w)
      | Inr f \<Rightarrow> (Inr (), w\<lparr>files := f\<rparr>))"

definition PACKAGE_JSON :: "initDeps \<Rightarrow> bool \<Rightarrow> string \<Rightarrow> json" where
  "PACKAGE_JSON D isJS indexFileName =
     JObj
       [(''type'', JStr ''module''),
        (''version'', JStr ''1.0.0''),
        (''description'', JStr []),
        (''main'', JStr indexFileName),
        (''scripts'',
           JObj [(''start'',
                  JStr ((if isJS then ''node'' else ''ts-node'') @ '' ''
                        @ pathJoin D [SRC_DIR_NAME D, indexFileName]))]),
        (''keywords'', JArr [JStr ''fluence'']),
        (''author'', JStr []),
        (''license'', JStr ''ISC''),
        (''dependencies'',
           JObj (objSpread
             (objSpread
               (objSpread
                 (objSpread []
                   [(JS_CLIENT_NODE_NPM_DEPENDENCY D, versionsNpm D (JS_CLIENT_NODE_NPM_DEPENDENCY D))])
                 [(JS_CLIENT_API_NPM_DEPENDENCY D, versionsNpm D (JS_CLIENT_API_NPM_DEPENDENCY D))])
               [(FLUENCE_NETWORK_ENVIRONMENT_NPM_DEPENDENCY D,
                 versionsNpm D (FLUENCE_NETWORK_ENVIRONMENT_NPM_DEPENDENCY D))])
             (if isJS then []
              else [(''ts-node'', JStr (TS_NODE_RECOMMENDED_VERSION D)),
                    (''typescript'', JStr (TYPESCRIPT_RECOMMENDED_VERSION D))])))]"

definition TS_CONFIG :: json where
  "TS_CONFIG =
     JObj
       [(''compilerOptions'',
           JObj [(''target'', JStr ''es2022''),
                 (''module'', JStr ''es2022''),
                 (''strict'', JBool True),
                 (''skipLibCheck'', JBool True),
                 (''moduleResolution'', JStr ''nodenext'')]),
        (''ts-node'', JObj [(''esm'', JBool True)])]"

text \<open>\<open>initTSorJSProject\<close> assigns a member of the project config it was given; the
  caller sees the assignment, so the config is returned.\<close>

definition initTSorJSProject :: "deps \<Rightarrow> initDeps \<Rightarrow> bool \<Rightarrow> InitializedConfig \<Rightarrow> InitializedConfig io" where
  "initTSorJSProject E D isJS fluenceConfig =
     bindIO (if isJS then ensureDefaultAquaJSPath D else ensureDefaultAquaTSPath D) (\<lambda>defaultAquaTSorJSPath.
     (\<lambda>w0.
       (let defaultAquaTSorJSPathRelative = pathRelative D (projectRootDir w0) defaultAquaTSorJSPath in
        bindIO (if isJS then ensureDefaultJSDirPath D else ensureDefaultTSDirPath D) (\<lambda>defaultTSorJSDirPath.
        (let indexFileName = (if isJS then INDEX_JS_FILE_NAME D else INDEX_TS_FILE_NAME D) in
         bindIO (ioWriteFile (pathJoin D [defaultTSorJSDirPath, PACKAGE_JSON_FILE_NAME D])
                   (jsonStringifyIndent2 D (PACKAGE_JSON D isJS indexFileName) @ [CHR 0x0A])) (\<lambda>u1.
         bindIO (ioWriteFile (pathJoin D [defaultTSorJSDirPath, SRC_DIR_NAME D, indexFileName])
                   (TEMPLATE_INDEX_FILE_CONTENT D)) (\<lambda>u2.
         bindIO
           (if isJS then
              pureIO (fluenceConfig\<lparr>cfgValue :=
                        setField ''aquaOutputJSPath'' (JStr defaultAquaTSorJSPathRelative) (cfgValue fluenceConfig)\<rparr>)
            else
              bindIO (ioWriteFile (pathJoin D [defaultTSorJSDirPath, SRC_DIR_NAME D, TS_CONFIG_FILE_NAME D])
                        (jsonStringifyCompact D TS_CONFIG)) (\<lambda>u3.
              pureIO (fluenceConfig\<lparr>cfgValue :=
                        setField ''aquaOutputTSPath'' (JStr defaultAquaTSorJSPathRelative) (cfgValue fluenceConfig)\<rparr>)))
           (\<lambda>fluenceConfig'.
         bindIO (ioCommit E (projectOptions D) fluenceConfig') (\<lambda>u4.
         pureIO fluenceConfig')))))) w0)))"

definition notEmptyMessage :: "initDeps \<Rightarrow> string \<Rightarrow> string" where
  "notEmptyMessage D projectPath =
     ''Directory '' @ colorYellow D projectPath @ '' is not empty. Please, init in an empty directory.''"

definition initProjectPath :: "initDeps \<Rightarrow> InitArg \<Rightarrow> string" where
  "initProjectPath D options =
     (if maybeProjectPath options = None \<and> \<not> isInteractive D then processCwd D
      else pathResolve D (case maybeProjectPath options of Some p \<Rightarrow> p | None \<Rightarrow> inputAnswer D))"

definition init :: "deps \<Rightarrow> initDeps \<Rightarrow> InitArg \<Rightarrow> InitializedConfig io" where
  "init E D options =
     (let chosen = (case template options of Some t \<Rightarrow> t | None \<Rightarrow> selectTemplateAnswer D) in
      bindIO (countlyAddEvent (''init:template:'' @ templateName chosen)) (\<lambda>u0.
      (let projectPath = initProjectPath D options in
       (\<lambda>w.
         if existsSync (files w) projectPath
            \<and> isDirectory (files w) projectPath
            \<and> 0 < length (readdir (files w) projectPath)
         then failIO (CommandError (notEmptyMessage D projectPath)) w
         else
           bindIO (ioMkdir projectPath) (\<lambda>u1.
           bindIO (setProjectRootDir projectPath) (\<lambda>u2.
           bindIO (ensureFluenceAquaServicesPath D) (\<lambda>servicesPath.
           bindIO (ioWriteFile servicesPath []) (\<lambda>u3.
           bindIO (initNewFluenceConfig D) (\<lambda>fluenceConfig0.
           bindIO
             (case chosen of
                Minimal \<Rightarrow> pureIO fluenceConfig0
              | Js \<Rightarrow> initTSorJSProject E D True fluenceConfig0
              | Ts \<Rightarrow> initTSorJSProject E D False fluenceConfig0) (\<lambda>fluenceConfig.
           bindIO (ensureVSCodeExtensionsJsonPath D) (\<lambda>extensionsPath.
           bindIO (ioWriteFile extensionsPath
                     (jsonStringify D
                        (JObj [(''recommendations'',
                                JArr [JStr ''redhat.vscode-yaml'', JStr ''FluenceLabs.aqua''])])
                      @ [CHR 0x0A])) (\<lambda>u4.
           bindIO (ensureAquaImports D True fluenceConfig) (\<lambda>u5.
           (\<lambda>w1. bindIO (ioWriteFile (getGitignorePath D w1) (RECOMMENDED_GITIGNORE_CONTENT D)) (\<lambda>u6.
           bindIO (initNewWorkersConfig D) (\<lambda>workersConfig.
           bindIO (ensureAquaFileWithWorkerInfo D workersConfig fluenceConfig) (\<lambda>u7.
           bindIO (commandLog (colorMagentaBright D
                     ([CHR 0x0A] @ ''Successfully initialized Fluence project template at ''
                      @ replaceHomeDir D projectPath @ [CHR 0x0A]))) (\<lambda>u8.
           pureIO fluenceConfig)))) w1)))))))))) w))))"

section \<open>Sample parameters\<close>

text \<open>Modelled from the spec: the name-format rule of the absent helper
  \<open>validateAquaName\<close> (\<open>helpers/downloadFile.js\<close>). The specification fixes that it
  accepts \<open>svc1\<close> and rejects \<open>Bad Name!\<close>, and returns a string on rejection; the rule
  taken here is a name that starts with a lowercase letter and holds letters, digits and
  underscores only.\<close>

definition aquaNameRule :: "string \<Rightarrow> validity" where
  "aquaNameRule s =
     (if s \<noteq> [] \<and> hd s \<in> set ''abcdefghijklmnopqrstuvwxyz'' \<and> list_all isKeyChar s then VTrue
      else VString (s @ '' must start with a lowercase letter and contain only letters, numbers, and underscores''))"

text \<open>The properties that a module of a service may override, as the default template
  documents them.\<close>

definition sampleModuleProperties :: "(string \<times> schema) list" where
  "sampleModuleProperties =
     [(''envs'', Schema TObject True None None [] [] (Conforming stringSchema)),
      (''loggerEnabled'', Schema TBoolean True None None [] [] Allowed),
      (''loggingMask'', Schema TNumber True None None [] [] Allowed),
      (''maxHeapSize'', Schema TString True None None [] [] Allowed),
      (''mountedBinaries'', Schema TObject True None None [] [] (Conforming stringSchema)),
      (''volumes'', Schema TObject True None None [] [] (Conforming stringSchema))]"

text \<open>One choice of the parameters, for running the model: service configs are
  \<open>service.yaml\<close> in the directory given, relative paths are resolved against the
  directory given, the terminal has no colours, the YAML library is the fragment above.\<close>

definition sampleDeps :: deps where
  "sampleDeps =
     \<lparr>BYTES_PATTERN = ''^[0-9]+$'',
      MAX_HEAP_SIZE_DESCRIPTION = ''Max size of the heap that a module can allocate'',
      SERVICE_CONFIG_FILE_NAME = ''service'',
      overridableModuleProperties = sampleModuleProperties,
      validateAquaName = aquaNameRule,
      ensureServiceAbsolutePath =
        (\<lambda>p a f. (if p \<noteq> [] \<and> hd p = CHR ''/'' then p else a @ ''/'' @ p, f)),
      getFluenceDir = ''/project/.fluence'',
      regexTest = (\<lambda>p s. s \<noteq> [] \<and> list_all isDigit s),
      yamlParse = parseYamlOption,
      yamlStringify = stringifyYaml,
      yellow = (\<lambda>s. s),
      configFilePath = (\<lambda>p n. p @ ''/'' @ n @ ''.yaml'')\<rparr>"

text \<open>The service config of the specification's scenarios:
  \<open>{version: 0, name: ..., modules: {facade: {get: ...}}}\<close>.\<close>

definition serviceDoc :: "string \<Rightarrow> string \<Rightarrow> json" where
  "serviceDoc n g =
     JObj [(''version'', JNum 0), (''name'', JStr n),
           (''modules'', JObj [(''facade'', JObj [(''get'', JStr g)])])]"

text \<open>A file system with one service config, and one with a project directory that is
  not empty.\<close>

definition sampleFs :: fs where
  "sampleFs = [''/proj/svc/service.yaml'' \<mapsto> File (stringifyYaml (serviceDoc ''svc1'' ''./mod''))]"

definition sampleProjectFs :: fs where
  "sampleProjectFs = [''/home/user/app'' \<mapsto> Dir [''README.md'']]"

definition sampleWorld :: World where
  "sampleWorld =
     \<lparr>files = sampleProjectFs, projectRootDir = [], countlyEvents = [], logged = []\<rparr>"

definition sampleHandle :: InitializedConfig where
  "sampleHandle = \<lparr>cfgValue = JObj [(''version'', JNum 0)], cfgPath = ''/home/user/app/fluence.yaml''\<rparr>"

text \<open>One choice of the collaborators of \<open>init\<close>: a terminal without prompts or colours,
  paths joined by \<open>/\<close>, and collaborators that write nothing.\<close>

definition sampleInitDeps :: initDeps where
  "sampleInitDeps =
     \<lparr>selectTemplateAnswer = Minimal,
      inputAnswer = [],
      isInteractive = False,
      processCwd = ''/home/user/app'',
      pathResolve = (\<lambda>p. if p \<noteq> [] \<and> hd p = CHR ''/'' then p else ''/home/user/app/'' @ p),
      pathJoin = (\<lambda>ps. case ps of [] \<Rightarrow> ''.'' | p # qs \<Rightarrow> foldl (\<lambda>a b. a @ ''/'' @ b) p qs),
      pathRelative = (\<lambda>a b. drop (Suc (length a)) b),
      colorYellow = (\<lambda>s. s),
      colorMagentaBright = (\<lambda>s. s),
      replaceHomeDir = (\<lambda>s. s),
      jsonStringify = (\<lambda>d. ''{}''),
      jsonStringifyIndent2 = (\<lambda>d. ''{}''),
      jsonStringifyCompact = (\<lambda>d. ''{}''),
      RECOMMENDED_GITIGNORE_CONTENT = ''.fluence'',
      PACKAGE_JSON_FILE_NAME = ''package.json'',
      INDEX_JS_FILE_NAME = ''index.js'',
      INDEX_TS_FILE_NAME = ''index.ts'',
      SRC_DIR_NAME = ''src'',
      TEMPLATE_INDEX_FILE_CONTENT = [],
      TYPESCRIPT_RECOMMENDED_VERSION = ''5.0.0'',
      TS_NODE_RECOMMENDED_VERSION = ''10.0.0'',
      TS_CONFIG_FILE_NAME = ''tsconfig.json'',
      JS_CLIENT_NODE_NPM_DEPENDENCY = ''@fluencelabs/js-client.node'',
      JS_CLIENT_API_NPM_DEPENDENCY = ''@fluencelabs/js-client.api'',
      FLUENCE_NETWORK_ENVIRONMENT_NPM_DEPENDENCY = ''@fluencelabs/fluence-network-environment'',
      versionsNpm = (\<lambda>n. JStr ''1.0.0''),
      projectOptions = getInitConfigOptions sampleDeps ''/home/user/app'',
      initNewFluenceConfig = pureIO sampleHandle,
      initNewWorkersConfig = pureIO sampleHandle,
      ensureAquaFileWithWorkerInfo = (\<lambda>a b. pureIO ()),
      ensureAquaImports = (\<lambda>g c. pureIO ()),
      ensureDefaultAquaJSPath = pureIO ''/home/user/app/src/js/src/aqua'',
      ensureDefaultAquaTSPath = pureIO ''/home/user/app/src/ts/src/aqua'',
      ensureDefaultJSDirPath = pureIO ''/home/user/app/src/js'',
      ensureDefaultTSDirPath = pureIO ''/home/user/app/src/ts'',
      ensureFluenceAquaServicesPath = pureIO ''/home/user/app/.fluence/aqua/services.aqua'',
      ensureVSCodeExtensionsJsonPath = pureIO ''/home/user/app/.vscode/extensions.json'',
      getGitignorePath = (\<lambda>w. projectRootDir w @ ''/.gitignore'')\<rparr>"

section \<open>Lemmas on objects and schemas\<close>

lemma set_update_subset: "set (AList.update k v al) \<subseteq> insert (k, v) (set al)"
  by (induction al) auto

lemma objSpread_snoc: "objSpread a (b @ [kv]) = AList.update (fst kv) (snd kv) (objSpread a b)"
  by (simp add: objSpread_def)

lemma objSpread_keeps:
  assumes "\<forall>kv\<in>set b. fst kv \<noteq> k"
    and "\<forall>kv\<in>set a. fst kv = k \<longrightarrow> snd kv = s"
  shows "\<forall>kv\<in>set (objSpread a b). fst kv = k \<longrightarrow> snd kv = s"
  using assms(1)
proof (induction b rule: rev_induct)
  case Nil
  with assms(2) show ?case by (simp add: objSpread_def)
next
  case (snoc x xs)
  then have ih: "\<forall>kv\<in>set (objSpread a xs). fst kv = k \<longrightarrow> snd kv = s" and x: "fst x \<noteq> k"
    by auto
  show ?case
  proof
    fix kv
    assume "kv \<in> set (objSpread a (xs @ [x]))"
    then have "kv \<in> insert (fst x, snd x) (set (objSpread a xs))"
      using set_update_subset [of "fst x" "snd x" "objSpread a xs"] by (auto simp: objSpread_snoc)
    with ih x show "fst kv = k \<longrightarrow> snd kv = s" by auto
  qed
qed

lemma map_of_objSpread_present:
  "map_of a k \<noteq> None \<Longrightarrow> map_of (objSpread a b) k \<noteq> None"
  by (induction b rule: rev_induct) (auto simp: objSpread_def update_conv')

lemma map_of_no_key: "map_of al k = None \<Longrightarrow> \<forall>kv\<in>set al. fst kv \<noteq> k"
  by (induction al) (auto split: if_splits)

lemma configSchemaV0_unfold:
  "configSchemaV0 E =
     Schema TObject False None None
       [(''name'', stringSchema), (''modules'', modulesSchema E),
        (''totalMemoryLimit'', Schema TString True (Some (BYTES_PATTERN E)) None [] [] Allowed),
        (''version'', Schema TNumber False None (Some (JNum 0)) [] [] Allowed)]
       [''version'', ''name'', ''modules'']
       Forbidden"
  by (simp add: configSchemaV0_def objSpread_def overridableServiceProperties_properties_def
      overridableServiceProperties_required_def)

lemma modules_required_facade:
  assumes "map_of ms FACADE_MODULE_NAME = None"
  shows "VError path (KRequired ''facade'') \<in> set (validateSchema re (modulesSchema E) path (JObj ms))"
  using assms by (simp add: modulesSchema_def FACADE_MODULE_NAME_def)

lemma modules_first_error:
  assumes "map_of ms FACADE_MODULE_NAME = None"
  shows "\<exists>rest. validateSchema re (modulesSchema E) path (JObj ms)
           = VError path (KRequired ''facade'') # rest"
  using assms by (simp add: modulesSchema_def FACADE_MODULE_NAME_def)

lemma no_additional:
  assumes "\<forall>k. map_of kvs k \<noteq> None \<longrightarrow> map_of props k \<noteq> None"
  shows "concat (map (\<lambda>kv. if map_of props (fst kv) \<noteq> None then [] else g kv) kvs) = []"
proof -
  have "map_of props (fst kv) \<noteq> None" if "kv \<in> set kvs" for kv
  proof -
    from that have "fst kv \<in> fst ` set kvs" by simp
    then have "map_of kvs (fst kv) \<noteq> None"
      by (simp add: map_of_eq_None_iff)
    with assms show ?thesis by blast
  qed
  then show ?thesis by simp
qed

lemma stringSchema_valid: "validateSchema re stringSchema path (JStr s) = []"
  by (simp add: stringSchema_def)

lemma module_valid:
  assumes noget: "map_of (overridableModuleProperties E) ''get'' = None"
  shows "validateSchema re (moduleSchemaForService E) path (JObj [(''get'', JStr g)]) = []"
proof -
  let ?props = "objSpread [(''get'', stringSchema)] (overridableModuleProperties E)"
  have present: "map_of ?props ''get'' \<noteq> None"
    by (rule map_of_objSpread_present) simp
  have keeps: "\<forall>kv\<in>set ?props. fst kv = ''get'' \<longrightarrow> snd kv = stringSchema"
    by (rule objSpread_keeps [OF map_of_no_key [OF noget]]) simp
  have each: "(case map_of [(''get'', JStr g)] (fst ps) of None \<Rightarrow> []
               | Some x \<Rightarrow> validateSchema re (snd ps) (path @ [fst ps]) x) = []"
    if "ps \<in> set ?props" for ps
    using that keeps by (auto simp: stringSchema_valid)
  then have inside: "concat (map (\<lambda>ps. case map_of [(''get'', JStr g)] (fst ps) of None \<Rightarrow> []
               | Some x \<Rightarrow> validateSchema re (snd ps) (path @ [fst ps]) x) ?props) = []"
    by simp
  show ?thesis
    using present inside by (simp add: moduleSchemaForService_def)
qed

lemma modules_valid:
  assumes noget: "map_of (overridableModuleProperties E) ''get'' = None"
  shows "validateSchema re (modulesSchema E) path (JObj [(''facade'', JObj [(''get'', JStr g)])]) = []"
  by (simp add: modulesSchema_def FACADE_MODULE_NAME_def module_valid [OF noget])

lemma serviceDoc_valid:
  assumes noget: "map_of (overridableModuleProperties E) ''get'' = None"
  shows "validateSchema re (configSchemaV0 E) [] (serviceDoc n g) = []"
  by (simp add: configSchemaV0_unfold serviceDoc_def stringSchema_valid modules_valid [OF noget])

lemma serviceDoc_version: "versionIndex (getInitConfigOptions E p) (serviceDoc n g) = Some 0"
  by (simp add: versionIndex_def declaredVersion_def serviceDoc_def getInitConfigOptions_def)

lemma serviceDoc_name: "configName (serviceDoc n g) = n"
  by (simp add: configName_def serviceDoc_def)

section \<open>Lemmas on the engine and the files\<close>

lemma migrateFrom_latest: "migrateFrom migs latest latest d = Some d"
  by simp

lemma find_of_nat:
  "n < m \<Longrightarrow> find (\<lambda>k. (of_nat k :: rat) = of_nat n) [0 ..< m] = Some n"
proof -
  assume less: "n < m"
  have "\<exists>i<length [0 ..< m]. rat_of_nat ([0 ..< m] ! i) = of_nat n \<and> n = [0 ..< m] ! i
          \<and> (\<forall>j<i. \<not> rat_of_nat ([0 ..< m] ! j) = of_nat n)"
    using less by (intro exI [of _ n]) simp
  then show ?thesis
    by (simp only: find_Some_iff)
qed

lemma declaredVersion_forceVersion: "declaredVersion (forceVersion v d) = Some (of_nat v)"
  by (cases d) (simp_all add: forceVersion_def declaredVersion_def update_conv')

lemma versionIndex_forced:
  assumes "allSchemas opts \<noteq> []"
  shows "versionIndex opts (forceVersion (latestVersion opts) d) = Some (latestVersion opts)"
proof -
  from assms have "latestVersion opts < length (allSchemas opts)"
    by (cases "allSchemas opts") (simp_all add: latestVersion_def)
  then have "find (\<lambda>n. rat_of_nat n = of_nat (latestVersion opts)) [0 ..< length (allSchemas opts)]
      = Some (latestVersion opts)"
    by (rule find_of_nat)
  then show ?thesis
    by (simp only: versionIndex_def declaredVersion_forceVersion option.case)
qed

lemma getInitConfigOptions_latest: "latestVersion (getInitConfigOptions E p) = 0"
  by (simp add: latestVersion_def getInitConfigOptions_def)

lemma validateConfig_structural_first:
  "validateSchema (regexTest E) (latestSchema opts) [] d \<noteq> [] \<Longrightarrow>
   validateConfig E opts path d
     = Inl (SchemaValidationError path (validateSchema (regexTest E) (latestSchema opts) [] d))"
  by (cases "validateSchema (regexTest E) (latestSchema opts) [] d") (simp_all add: validateConfig_def)

lemma loadConfig_serviceDoc:
  assumes noget: "map_of (overridableModuleProperties E) ''get'' = None"
    and parsed: "yamlParse E content = Some (serviceDoc n g)"
  shows "loadConfig E (getInitConfigOptions E dir) path content =
           (case validate E (serviceDoc n g) of
              VTrue \<Rightarrow> Inr (serviceDoc n g)
            | VString why \<Rightarrow> Inl (SemanticValidationError path why))"
proof -
  have v: "versionIndex (getInitConfigOptions E dir) (serviceDoc n g) = Some 0"
    by (rule serviceDoc_version)
  have s: "validateSchema (regexTest E) (latestSchema (getInitConfigOptions E dir)) [] (serviceDoc n g) = []"
    using serviceDoc_valid [OF noget] by (simp add: getInitConfigOptions_def)
  have o: "optValidate (getInitConfigOptions E dir) = Some (validate E)"
    by (simp add: getInitConfigOptions_def)
  show ?thesis
    using parsed v s o
    by (simp add: loadConfig_def validateConfig_def getInitConfigOptions_latest)
qed

lemma writeFile_result:
  "writeFile f p c = Inr f' \<Longrightarrow> f' = f(p \<mapsto> File c)"
  by (auto simp: writeFile_def split: option.splits node.splits)

lemma readFile_written: "readFile (f(p \<mapsto> File c)) p = Some c"
  by (simp add: readFile_def)

lemma open_path:
  assumes "getConfigInitFunction E opts g f = (Inr (Some h), f1)"
  shows "cfgPath h = configFilePath E (getConfigOrConfigDirPath opts) (optName opts)"
  using assms
  by (auto simp: getConfigInitFunction_def asHandle_def Let_def
      split: option.splits sum.splits)

section \<open>The YAML fragment on the default template\<close>

lemma splitLines_line:
  "CHR 0x0A \<notin> set l \<Longrightarrow> splitLines (l @ CHR 0x0A # rest) = l # splitLines rest"
  by (induction l) (auto split: list.splits)

lemma unlines_Cons: "unlines (l # ls) = l @ CHR 0x0A # unlines ls"
  by (simp add: unlines_def)

lemma unlines_Nil: "unlines [] = []"
  by (simp add: unlines_def)

lemma splitLines_unlines_Cons:
  "CHR 0x0A \<notin> set l \<Longrightarrow> splitLines (unlines (l # ls)) = l # splitLines (unlines ls)"
  by (simp add: unlines_Cons splitLines_line)

lemma parseLine_comment: "parseLine (CHR ''#'' # cs) = Blank"
  by (simp add: parseLine_def isSpace_def)

lemma parseLine_empty: "parseLine [] = Blank"
  by (simp add: parseLine_def)

lemmas parse_simps =
  parseLine_def parseValue_def isSpace_def isKeyChar_def isPrintable_def plainScalar_def
  isDigit_def addEntry_def decimal_def stripRight_def

lemma isKeyChar_cases:
  "isKeyChar c \<Longrightarrow>
     isPrintable c \<and> \<not> isSpace c \<and> c \<noteq> CHR '':'' \<and> c \<noteq> CHR ''#'' \<and> c \<noteq> CHR 0x0A"
  by (auto simp: isKeyChar_def isPrintable_def isSpace_def)

lemma lowercase_cases:
  "c \<in> set ''abcdefghijklmnopqrstuvwxyz'' \<Longrightarrow>
     \<not> isDigit c \<and> c \<noteq> CHR ''+'' \<and> c \<noteq> CHR ''-'' \<and> c \<noteq> CHR ''.'' \<and> c \<noteq> CHR ''~''
     \<and> c \<noteq> CHR ''N'' \<and> c \<noteq> CHR ''T'' \<and> c \<noteq> CHR ''F''
     \<and> c \<noteq> CHR 0x27 \<and> c \<noteq> CHR 0x22 \<and> c \<noteq> CHR 0x60 \<and> c \<noteq> CHR ''#''
     \<and> c \<notin> set ''[]{},&*!|>%@'' \<and> c \<notin> set ''?-:''"
  by (auto simp: isDigit_def)

lemma cutComment_no_space: "\<forall>c\<in>set s. \<not> isSpace c \<Longrightarrow> cutComment s = s"
  by (induction s) auto

lemma stripRight_no_space: "\<forall>c\<in>set s. \<not> isSpace c \<Longrightarrow> stripRight s = s"
proof -
  assume nospace: "\<forall>c\<in>set s. \<not> isSpace c"
  have "dropWhile isSpace (rev s) = rev s"
  proof (cases "rev s")
    case Nil
    then show ?thesis by simp
  next
    case (Cons x xs)
    then have "x \<in> set s"
      by (metis list.set_intros(1) set_rev)
    with nospace Cons show ?thesis by simp
  qed
  then show ?thesis
    by (simp add: stripRight_def)
qed

lemma hasColonSpace_no_colon: "CHR '':'' \<notin> set s \<Longrightarrow> \<not> hasColonSpace s"
  by (induction s rule: hasColonSpace.induct) auto

lemma scanQuoted_closed: "CHR 0x27 \<notin> set p \<Longrightarrow> scanQuoted (p @ [CHR 0x27]) = Some (p, [])"
  by (induction p) auto

lemma printable_no_newline: "list_all isPrintable s \<Longrightarrow> CHR 0x0A \<notin> set s"
  by (auto simp: list_all_iff isPrintable_def)

lemma aquaNameRule_accepts:
  "aquaNameRule n = VTrue \<Longrightarrow>
     \<exists>c cs. n = c # cs \<and> c \<in> set ''abcdefghijklmnopqrstuvwxyz'' \<and> list_all isKeyChar n"
  by (cases n) (auto simp: aquaNameRule_def split: if_splits)

lemma parseValue_name:
  assumes rule: "aquaNameRule n = VTrue"
    and unreserved: "n \<notin> set [''null'', ''true'', ''false'']"
  shows "parseValue i k n = Entry i k (Some (JStr n))"
proof -
  from rule obtain c cs where n: "n = c # cs"
    and lower: "c \<in> set ''abcdefghijklmnopqrstuvwxyz''" and keys: "list_all isKeyChar n"
    using aquaNameRule_accepts by blast
  note c = lowercase_cases [OF lower]
  from keys have chars: "\<forall>x\<in>set n. \<not> isSpace x" and nocolon: "CHR '':'' \<notin> set n"
    using isKeyChar_cases by (auto simp: list_all_iff)
  have strip: "stripRight (cutComment n) = n"
    using chars by (simp add: cutComment_no_space stripRight_no_space)
  have colon: "\<not> hasColonSpace n"
    using nocolon by (rule hasColonSpace_no_colon)
  have scalar: "plainScalar n = Some (JStr n)"
    using unreserved c by (simp add: plainScalar_def n)
  have "parseValue i k (c # cs) = Entry i k (Some (JStr (c # cs)))"
    using c strip colon scalar unfolding n parseValue_def
    by (simp add: Let_def)
  then show ?thesis
    by (simp add: n)
qed

lemma parseLine_name:
  assumes rule: "aquaNameRule n = VTrue"
    and unreserved: "n \<notin> set [''null'', ''true'', ''false'']"
  shows "parseLine (''name: '' @ n) = Entry 0 ''name'' (Some (JStr n))"
proof -
  from rule obtain c cs where n: "n = c # cs"
    and lower: "c \<in> set ''abcdefghijklmnopqrstuvwxyz''" and keys: "list_all isKeyChar n"
    using aquaNameRule_accepts by blast
  note c = lowercase_cases [OF lower]
  from keys have printable: "list_all isPrintable n"
    using isKeyChar_cases by (auto simp: list_all_iff)
  have first: "\<not> isSpace c"
    using keys isKeyChar_cases by (auto simp: n)
  have "parseLine (''name: '' @ n) = parseValue 0 ''name'' n"
    using printable first
    by (simp add: parseLine_def isSpace_def isKeyChar_def isPrintable_def n)
  then show ?thesis
    by (simp add: parseValue_name [OF rule unreserved])
qed

lemma parseLine_get:
  assumes printable: "list_all isPrintable p"
    and noquote: "CHR 0x27 \<notin> set p"
  shows "parseLine (''    get: '' @ sq @ p @ sq) = Entry 4 ''get'' (Some (JStr p))"
proof -
  have "parseLine (''    get: '' @ sq @ p @ sq) = parseValue 4 ''get'' (sq @ p @ sq)"
    using printable
    by (simp add: parseLine_def isSpace_def isKeyChar_def isPrintable_def eval_nat_numeral)
  also have "\<dots> = Entry 4 ''get'' (Some (JStr p))"
    using scanQuoted_closed [OF noquote] by (simp add: parseValue_def)
  finally show ?thesis .
qed

text \<open>Where the template is a valid service config: the facade path has printable
  characters only and no single quote, the name is accepted by the name rule and is not
  one of the words that the core schema reads as null or a boolean, the description of
  the heap size is one line, and no overridable module property is called \<open>get\<close>. Then
  the template parses to the config with that name and that path, and the config
  conforms to the schema.\<close>

theorem getDefault_parses_and_validates:
  assumes rule: "aquaNameRule n = VTrue"
    and unreserved: "n \<notin> set [''null'', ''true'', ''false'']"
    and printable: "list_all isPrintable p"
    and noquote: "CHR 0x27 \<notin> set p"
    and oneline: "CHR 0x0A \<notin> set (MAX_HEAP_SIZE_DESCRIPTION E)"
    and noget: "map_of (overridableModuleProperties E) ''get'' = None"
  shows "parseYaml (getDefault E p n) = Parsed (serviceDoc n p)
     \<and> validateSchema (regexTest E) (configSchemaV0 E) [] (serviceDoc n p) = []"
proof -
  from rule have "list_all isPrintable n"
    using aquaNameRule_accepts isKeyChar_cases by (auto simp: list_all_iff)
  then have n_line: "CHR 0x0A \<notin> set n"
    by (rule printable_no_newline)
  have p_line: "CHR 0x0A \<notin> set p"
    using printable by (rule printable_no_newline)
  have name_line: "parseLine (CHR ''n'' # CHR ''a'' # CHR ''m'' # CHR ''e'' # CHR '':'' # CHR '' '' # n)
      = Entry 0 ''name'' (Some (JStr n))"
    using parseLine_name [OF rule unreserved] by simp
  have get_line: "parseLine (CHR '' '' # CHR '' '' # CHR '' '' # CHR '' '' # CHR ''g'' # CHR ''e'' # CHR ''t''
        # CHR '':'' # CHR '' '' # CHR 0x27 # p @ [CHR 0x27])
      = Entry 4 ''get'' (Some (JStr p))"
    using parseLine_get [OF printable noquote] by simp
  have lines: "map parseLine (splitLines (getDefault E p n)) =
      [Blank, Blank, Blank, Blank, Blank, Entry 0 ''version'' (Some (JNum 0)), Blank, Blank, Blank, Blank,
       Entry 0 ''name'' (Some (JStr n)), Blank, Blank, Blank, Entry 0 ''modules'' None,
       Entry 2 ''facade'' None, Blank, Blank, Entry 4 ''get'' (Some (JStr p)), Blank, Blank, Blank,
       Blank, Blank, Blank, Blank, Blank, Blank, Blank, Blank, Blank, Blank, Blank, Blank, Blank, Blank,
       Blank, Blank, Blank, Blank, Blank, Blank, Blank, Blank, Blank, Blank]"
    unfolding getDefault_def
    apply (simp add: splitLines_unlines_Cons n_line p_line oneline unlines_Nil
        parseLine_comment parseLine_empty name_line get_line del: splitLines.simps)
    apply (simp add: parse_simps)
    done
  have "parseYaml (getDefault E p n) = Parsed (serviceDoc n p)"
    unfolding parseYaml_def lines
    by (simp add: addEntry_def serviceDoc_def)
  with serviceDoc_valid [OF noget] show ?thesis
    by simp
qed

text \<open>With the facade path \<open>./mod\<close> and the name \<open>svc1\<close> the template parses to the
  service config of the scenarios, which conforms to the schema.\<close>

lemma getDefault_sample_parses:
  "parseYaml (getDefault sampleDeps ''./mod'' ''svc1'') = Parsed (serviceDoc ''svc1'' ''./mod'')"
  unfolding parseYaml_def getDefault_def sampleDeps_def serviceDoc_def
  apply (simp add: splitLines_unlines_Cons parseLine_comment parseLine_empty unlines_Nil del: splitLines.simps)
  apply (simp add: parse_simps)
  done

text \<open>With a single quote in the facade path, the line \<open>get: 'it's'\<close> of the template
  closes its scalar at the second quote; what follows it is a syntax error, whatever the
  parameters are.\<close>

lemma getDefault_quote_syntax_error:
  "parseYaml (getDefault E (''it'' @ sq @ ''s'') ''svc1'') = SyntaxError"
  unfolding parseYaml_def getDefault_def
  apply (simp add: splitLines_unlines_Cons parseLine_comment parseLine_empty del: splitLines.simps)
  apply (simp add: parse_simps del: splitLines.simps)
  done

text \<open>The name is written as a plain scalar: the name \<open>true\<close>, which the name rule
  accepts, is read back as a boolean, and the config does not conform.\<close>

lemma getDefault_name_true:
  "parseYaml (getDefault sampleDeps ''./mod'' ''true'')
     = Parsed (JObj [(''version'', JNum 0), (''name'', JBool True),
                     (''modules'', JObj [(''facade'', JObj [(''get'', JStr ''./mod'')])])])
   \<and> aquaNameRule ''true'' = VTrue
   \<and> VError [''name''] (KType TString)
       \<in> set (validateSchema (regexTest sampleDeps) (configSchemaV0 sampleDeps) []
                (JObj [(''version'', JNum 0), (''name'', JBool True),
                       (''modules'', JObj [(''facade'', JObj [(''get'', JStr ''./mod'')])])]))"
proof -
  have parsed: "parseYaml (getDefault sampleDeps ''./mod'' ''true'')
     = Parsed (JObj [(''version'', JNum 0), (''name'', JBool True),
                     (''modules'', JObj [(''facade'', JObj [(''get'', JStr ''./mod'')])])])"
    unfolding parseYaml_def getDefault_def sampleDeps_def
    apply (simp add: splitLines_unlines_Cons parseLine_comment parseLine_empty unlines_Nil del: splitLines.simps)
    apply (simp add: parse_simps)
    done
  have accepted: "aquaNameRule ''true'' = VTrue"
    by (simp add: aquaNameRule_def isKeyChar_def)
  have refused: "VError [''name''] (KType TString)
       \<in> set (validateSchema (regexTest sampleDeps) (configSchemaV0 sampleDeps) []
                (JObj [(''version'', JNum 0), (''name'', JBool True),
                       (''modules'', JObj [(''facade'', JObj [(''get'', JStr ''./mod'')])])]))"
    by (simp add: configSchemaV0_unfold stringSchema_def)
  from parsed accepted refused show ?thesis
    by simp
qed

section \<open>The sample parameters, evaluated\<close>

lemma sample_noget: "map_of (overridableModuleProperties sampleDeps) ''get'' = None"
  by (simp add: sampleDeps_def sampleModuleProperties_def)

lemma getDefault_sample_validates:
  "validateSchema (regexTest sampleDeps) (configSchemaV0 sampleDeps) [] (serviceDoc ''svc1'' ''./mod'') = []"
  by (rule serviceDoc_valid [OF sample_noget])

lemma sample_parse_svc1:
  "yamlParse sampleDeps (stringifyYaml (serviceDoc ''svc1'' ''./mod'')) = Some (serviceDoc ''svc1'' ''./mod'')"
  by code_simp

lemma sample_parse_svc2:
  "yamlParse sampleDeps (stringifyYaml (serviceDoc ''svc2'' ''./mod'')) = Some (serviceDoc ''svc2'' ''./mod'')"
  by code_simp

lemma sample_parse_bad:
  "yamlParse sampleDeps (stringifyYaml (serviceDoc ''Bad Name!'' ''./mod'')) = Some (serviceDoc ''Bad Name!'' ''./mod'')"
  by code_simp

lemma sample_name_ok: "validateAquaName sampleDeps ''svc1'' = VTrue"
  by code_simp

lemma sample_name_ok2: "validateAquaName sampleDeps ''svc2'' = VTrue"
  by code_simp

lemma sample_name_bad:
  "validateAquaName sampleDeps ''Bad Name!''
     = VString (''Bad Name! must start with a lowercase letter and contain only letters, numbers, and underscores'')"
  by code_simp

lemma sample_options_path:
  "configFilePath sampleDeps (getConfigOrConfigDirPath (getInitConfigOptions sampleDeps ''/proj/svc''))
     (optName (getInitConfigOptions sampleDeps ''/proj/svc'')) = ''/proj/svc/service.yaml''"
  by (simp add: sampleDeps_def getInitConfigOptions_def)

lemma sample_valid_svc2:
  "validateConfig sampleDeps (getInitConfigOptions sampleDeps ''/proj/svc'') p (serviceDoc ''svc2'' ''./mod'')
     = Inr (serviceDoc ''svc2'' ''./mod'')"
proof -
  have s: "validateSchema (regexTest sampleDeps) (latestSchema (getInitConfigOptions sampleDeps ''/proj/svc'')) []
      (serviceDoc ''svc2'' ''./mod'') = []"
    using serviceDoc_valid [OF sample_noget] by (simp add: getInitConfigOptions_def)
  have v: "validate sampleDeps (serviceDoc ''svc2'' ''./mod'') = VTrue"
    using sample_name_ok2 by (simp add: validate_def serviceDoc_name)
  show ?thesis
    using s v by (simp add: validateConfig_def getInitConfigOptions_def)
qed

lemma sample_open:
  "getConfigInitFunction sampleDeps (getInitConfigOptions sampleDeps ''/proj/svc'') None sampleFs
     = (Inr (Some \<lparr>cfgValue = serviceDoc ''svc1'' ''./mod'', cfgPath = ''/proj/svc/service.yaml''\<rparr>), sampleFs)"
proof -
  have r: "readFile sampleFs ''/proj/svc/service.yaml'' = Some (stringifyYaml (serviceDoc ''svc1'' ''./mod''))"
    by (simp add: sampleFs_def readFile_def)
  have v: "validate sampleDeps (serviceDoc ''svc1'' ''./mod'') = VTrue"
    using sample_name_ok by (simp add: validate_def serviceDoc_name)
  have l: "loadConfig sampleDeps (getInitConfigOptions sampleDeps ''/proj/svc'') ''/proj/svc/service.yaml''
      (stringifyYaml (serviceDoc ''svc1'' ''./mod'')) = Inr (serviceDoc ''svc1'' ''./mod'')"
    using loadConfig_serviceDoc [OF sample_noget sample_parse_svc1] v by simp
  show ?thesis
    using r l sample_options_path by (simp add: getConfigInitFunction_def asHandle_def)
qed

lemma sample_mutated:
  "forceVersion (latestVersion (getInitConfigOptions sampleDeps ''/proj/svc''))
     (setField ''name'' (JStr ''svc2'') (serviceDoc ''svc1'' ''./mod'')) = serviceDoc ''svc2'' ''./mod''"
  by (simp add: getInitConfigOptions_latest forceVersion_def serviceDoc_def)

lemma sample_commit:
  "commit sampleDeps (getInitConfigOptions sampleDeps ''/proj/svc'')
     \<lparr>cfgValue = setField ''name'' (JStr ''svc2'') (serviceDoc ''svc1'' ''./mod''),
      cfgPath = ''/proj/svc/service.yaml''\<rparr> sampleFs
   = Inr (sampleFs(''/proj/svc/service.yaml'' \<mapsto> File (stringifyYaml (serviceDoc ''svc2'' ''./mod''))))"
proof -
  have y: "yamlStringify sampleDeps = stringifyYaml"
    by (simp add: sampleDeps_def)
  have n: "sampleFs ''/proj/svc/service.yaml'' = Some (File (stringifyYaml (serviceDoc ''svc1'' ''./mod'')))"
    by (simp add: sampleFs_def)
  show ?thesis
    using sample_mutated n by (simp add: commit_def writeFile_def y)
qed

lemma sample_project_path:
  "initProjectPath sampleInitDeps \<lparr>maybeProjectPath = None, template = None\<rparr> = ''/home/user/app''"
  by (simp add: initProjectPath_def sampleInitDeps_def)

section \<open>The claims\<close>

text \<open>
  Claim C1. Open, mutate a member, commit, open again on the same path: the second open
  yields the committed value, in which the member has the value written. The engine is
  the one modelled from the specification. The hypotheses are the specification's: the
  first open succeeded; the value is an object and the member is not \<open>version\<close>, which
  commit forces to the latest; the registry has a schema; the serializer and the parser
  of the YAML library agree on the committed document; and the mutated value validates
  (invariant (a): the value of a handle always validates against the latest schema).
\<close>

theorem commit_then_open_round_trip:
  assumes opened: "getConfigInitFunction E opts getDefaultConfig f = (Inr (Some h), f1)"
    and object: "cfgValue h = JObj kvs"
    and field: "k \<noteq> ''version''"
    and mutated: "d' = forceVersion (latestVersion opts) (setField k v (cfgValue h))"
    and committed: "commit E opts (h\<lparr>cfgValue := setField k v (cfgValue h)\<rparr>) f1 = Inr f2"
    and registry: "allSchemas opts \<noteq> []"
    and format: "yamlParse E (yamlStringify E d') = Some d'"
    and valid: "validateConfig E opts (cfgPath h) d' = Inr d'"
  shows "getConfigInitFunction E opts getDefaultConfig' f2 = (Inr (Some \<lparr>cfgValue = d', cfgPath = cfgPath h\<rparr>), f2)
     \<and> getField d' k = Some v"
proof -
  let ?path = "configFilePath E (getConfigOrConfigDirPath opts) (optName opts)"
  have path: "cfgPath h = ?path"
    by (rule open_path [OF opened])
  from committed mutated have f2: "f2 = f1(cfgPath h \<mapsto> File (yamlStringify E d'))"
    by (simp add: commit_def writeFile_result)
  with path have there: "readFile f2 ?path = Some (yamlStringify E d')"
    by (simp add: readFile_written)
  have index: "versionIndex opts d' = Some (latestVersion opts)"
    unfolding mutated by (rule versionIndex_forced [OF registry])
  have load: "loadConfig E opts ?path (yamlStringify E d') = Inr d'"
    using format index valid path by (simp add: loadConfig_def)
  have reopened: "getConfigInitFunction E opts getDefaultConfig' f2
      = (Inr (Some \<lparr>cfgValue = d', cfgPath = cfgPath h\<rparr>), f2)"
    using there load path by (simp add: getConfigInitFunction_def asHandle_def)
  have observed: "getField d' k = Some v"
    using object field by (simp add: mutated forceVersion_def update_conv')
  from reopened observed show ?thesis by simp
qed

text \<open>The round trip on the sample file system: \<open>name\<close> goes from \<open>svc1\<close> to \<open>svc2\<close>.\<close>

theorem commit_then_open_round_trip_witness:
  "getConfigInitFunction sampleDeps (getInitConfigOptions sampleDeps ''/proj/svc'') None sampleFs
     = (Inr (Some \<lparr>cfgValue = serviceDoc ''svc1'' ''./mod'', cfgPath = ''/proj/svc/service.yaml''\<rparr>), sampleFs)
   \<and> commit sampleDeps (getInitConfigOptions sampleDeps ''/proj/svc'')
       \<lparr>cfgValue = setField ''name'' (JStr ''svc2'') (serviceDoc ''svc1'' ''./mod''),
        cfgPath = ''/proj/svc/service.yaml''\<rparr> sampleFs
     = Inr (sampleFs(''/proj/svc/service.yaml'' \<mapsto> File (stringifyYaml (serviceDoc ''svc2'' ''./mod''))))
   \<and> getConfigInitFunction sampleDeps (getInitConfigOptions sampleDeps ''/proj/svc'') None
       (sampleFs(''/proj/svc/service.yaml'' \<mapsto> File (stringifyYaml (serviceDoc ''svc2'' ''./mod''))))
     = (Inr (Some \<lparr>cfgValue = serviceDoc ''svc2'' ''./mod'', cfgPath = ''/proj/svc/service.yaml''\<rparr>),
        sampleFs(''/proj/svc/service.yaml'' \<mapsto> File (stringifyYaml (serviceDoc ''svc2'' ''./mod''))))
   \<and> getField (serviceDoc ''svc2'' ''./mod'') ''name'' = Some (JStr ''svc2'')"
proof -
  let ?E = sampleDeps
  let ?opts = "getInitConfigOptions sampleDeps ''/proj/svc''"
  let ?h = "\<lparr>cfgValue = serviceDoc ''svc1'' ''./mod'', cfgPath = ''/proj/svc/service.yaml''\<rparr>"
  let ?f2 = "sampleFs(''/proj/svc/service.yaml'' \<mapsto> File (stringifyYaml (serviceDoc ''svc2'' ''./mod'')))"
  have opened: "getConfigInitFunction ?E ?opts None sampleFs = (Inr (Some ?h), sampleFs)"
    by (rule sample_open)
  have object: "cfgValue ?h = JObj [(''version'', JNum 0), (''name'', JStr ''svc1''),
           (''modules'', JObj [(''facade'', JObj [(''get'', JStr ''./mod'')])])]"
    by (simp add: serviceDoc_def)
  have field: "''name'' \<noteq> ''version''"
    by simp
  have mutated: "serviceDoc ''svc2'' ''./mod''
      = forceVersion (latestVersion ?opts) (setField ''name'' (JStr ''svc2'') (cfgValue ?h))"
    using sample_mutated by simp
  have committed: "commit ?E ?opts (?h\<lparr>cfgValue := setField ''name'' (JStr ''svc2'') (cfgValue ?h)\<rparr>) sampleFs
      = Inr ?f2"
    using sample_commit by simp
  have registry: "allSchemas ?opts \<noteq> []"
    by (simp add: getInitConfigOptions_def)
  have format: "yamlParse ?E (yamlStringify ?E (serviceDoc ''svc2'' ''./mod'')) = Some (serviceDoc ''svc2'' ''./mod'')"
    using sample_parse_svc2 by (simp add: sampleDeps_def)
  have valid: "validateConfig ?E ?opts (cfgPath ?h) (serviceDoc ''svc2'' ''./mod'') = Inr (serviceDoc ''svc2'' ''./mod'')"
    by (rule sample_valid_svc2)
  note round = commit_then_open_round_trip
    [OF opened object field mutated committed registry format valid, of None]
  have reopened: "getConfigInitFunction ?E ?opts None ?f2
      = (Inr (Some \<lparr>cfgValue = serviceDoc ''svc2'' ''./mod'', cfgPath = ''/proj/svc/service.yaml''\<rparr>), ?f2)"
    using round by simp
  have observed: "getField (serviceDoc ''svc2'' ''./mod'') ''name'' = Some (JStr ''svc2'')"
    using round by simp
  from opened sample_commit reopened observed show ?thesis
    by blast
qed

text \<open>
  Claim C2. A service config whose declared version exceeds the latest known version
  (0 for the service kind) fails to load with a version mismatch: not with a parse error
  (the content is parsed), and whether or not a default generator is given. The engine
  is the one modelled from the specification; the registry \<open>[configSchemaV0]\<close> is that of
  \<open>getInitConfigOptions\<close>.
\<close>

theorem newer_version_is_mismatch:
  assumes parsed: "yamlParse E content = Some d"
    and declared: "declaredVersion d = Some r"
    and newer: "of_nat (latestVersion (getInitConfigOptions E dir)) < r"
  shows "loadConfig E (getInitConfigOptions E dir) path content = Inl (VersionMismatch path)
         \<and> (\<forall>f. readFile f (configFilePath E dir (SERVICE_CONFIG_FILE_NAME E)) = Some content \<longrightarrow>
               getConfigInitFunction E (getInitConfigOptions E dir) getDefaultConfig f
                 = (Inl (VersionMismatch (configFilePath E dir (SERVICE_CONFIG_FILE_NAME E))), f))"
proof -
  from newer have pos: "0 < r"
    by (simp add: getInitConfigOptions_latest)
  with declared have none: "versionIndex (getInitConfigOptions E dir) d = None"
    by (simp add: versionIndex_def getInitConfigOptions_def)
  have load: "loadConfig E (getInitConfigOptions E dir) q content = Inl (VersionMismatch q)" for q
    using parsed none by (simp add: loadConfig_def)
  then show ?thesis
    by (simp add: getConfigInitFunction_def asHandle_def getInitConfigOptions_def)
qed

theorem newer_version_is_mismatch_witness:
  "yamlParse sampleDeps (stringifyYaml (JObj [(''version'', JNum 1), (''name'', JStr ''svc1'')]))
     = Some (JObj [(''version'', JNum 1), (''name'', JStr ''svc1'')])
   \<and> declaredVersion (JObj [(''version'', JNum 1), (''name'', JStr ''svc1'')]) = Some 1
   \<and> of_nat (latestVersion (getInitConfigOptions sampleDeps ''/proj/svc'')) < (1 :: rat)
   \<and> loadConfig sampleDeps (getInitConfigOptions sampleDeps ''/proj/svc'') ''/proj/svc/service.yaml''
        (stringifyYaml (JObj [(''version'', JNum 1), (''name'', JStr ''svc1'')]))
      = Inl (VersionMismatch ''/proj/svc/service.yaml'')"
proof -
  let ?d = "JObj [(''version'', JNum 1), (''name'', JStr ''svc1'')]"
  have parsed: "yamlParse sampleDeps (stringifyYaml ?d) = Some ?d"
    by code_simp
  have declared: "declaredVersion ?d = Some 1"
    by (simp add: declaredVersion_def)
  have newer: "of_nat (latestVersion (getInitConfigOptions sampleDeps ''/proj/svc'')) < (1 :: rat)"
    by (simp add: getInitConfigOptions_latest)
  have mismatch: "loadConfig sampleDeps (getInitConfigOptions sampleDeps ''/proj/svc'') ''/proj/svc/service.yaml''
        (stringifyYaml ?d) = Inl (VersionMismatch ''/proj/svc/service.yaml'')"
    by (rule newer_version_is_mismatch [OF parsed declared newer, THEN conjunct1])
  from parsed declared newer mismatch show ?thesis
    by blast
qed

text \<open>
  Claim C3. The claim is that the default template, once parsed, validates against
  \<open>configSchemaV0\<close> for every facade path and every valid service name. \<open>getDefault\<close>
  puts the facade path between single quotes without escaping it: for the path \<open>it's\<close>
  and the name \<open>svc1\<close> the template is not YAML, for every choice of the parameters, and
  \<open>initNewReadonlyServiceConfig\<close> writes it and fails to parse it. (Where the template
  does parse and validate is \<open>getDefault_parses_and_validates\<close> above.)
\<close>

theorem getDefault_unescaped_quote:
  "parseYaml (getDefault E ''it's'' ''svc1'') = SyntaxError
   \<and> fst (initNewReadonlyServiceConfig sampleDeps ''/proj/svc'' ''it's'' ''svc1'' Map.empty)
       = Inl (ParseError ''/proj/svc/service.yaml'')"
proof -
  have syntax_error: "parseYaml (getDefault E ''it's'' ''svc1'') = SyntaxError" for E
    using getDefault_quote_syntax_error [of E] by simp
  then have p: "yamlParse sampleDeps (getDefault sampleDeps ''it's'' ''svc1'') = None"
    by (simp add: sampleDeps_def parseYamlOption_def)
  have c: "configFilePath sampleDeps ''/proj/svc'' (SERVICE_CONFIG_FILE_NAME sampleDeps) = ''/proj/svc/service.yaml''"
    by (simp add: sampleDeps_def)
  have "fst (initNewReadonlyServiceConfig sampleDeps ''/proj/svc'' ''it's'' ''svc1'' Map.empty)
       = Inl (ParseError ''/proj/svc/service.yaml'')"
    using p c
    by (simp add: initNewReadonlyServiceConfig_def getReadonlyConfigInitFunction_def
        getConfigInitFunction_def getInitConfigOptions_def readFile_def writeFile_def
        loadConfig_def asHandle_def Let_def)
  with syntax_error show ?thesis by simp
qed

text \<open>
  Claim C4. \<open>validate\<close> returns \<open>true\<close> exactly when \<open>validateAquaName\<close> accepts the name of
  the config, and otherwise the string \<open>Invalid service name: ...\<close> with the helper's
  message: a value, not an exception. The engine consults it only when the document
  conforms to the schema (a document that does not is reported for its structure). When
  the helper accepts \<open>svc1\<close> and rejects \<open>Bad Name!\<close>, and no overridable module property
  is called \<open>get\<close>, the scenario document with the name \<open>svc1\<close> conforms, passes \<open>validate\<close>
  and loads, and the one with the name \<open>Bad Name!\<close> conforms and fails to load with the
  semantic error that cites the name.
\<close>

theorem validate_cites_service_name:
  assumes ok: "validateAquaName E ''svc1'' = VTrue"
    and bad: "validateAquaName E ''Bad Name!'' = VString why"
    and noget: "map_of (overridableModuleProperties E) ''get'' = None"
    and parsed1: "yamlParse E content1 = Some (serviceDoc ''svc1'' ''./mod'')"
    and parsed2: "yamlParse E content2 = Some (serviceDoc ''Bad Name!'' ''./mod'')"
  shows "((validate E config = VTrue) \<longleftrightarrow> (validateAquaName E (configName config) = VTrue))
     \<and> (\<forall>m. validateAquaName E (configName config) = VString m \<longrightarrow>
            validate E config = VString (''Invalid service name: '' @ m))
     \<and> (\<forall>opts d. validateSchema (regexTest E) (latestSchema opts) [] d \<noteq> [] \<longrightarrow>
            validateConfig E opts path d
              = Inl (SchemaValidationError path (validateSchema (regexTest E) (latestSchema opts) [] d)))
     \<and> validateSchema (regexTest E) (configSchemaV0 E) [] (serviceDoc ''svc1'' ''./mod'') = []
     \<and> validate E (serviceDoc ''svc1'' ''./mod'') = VTrue
     \<and> loadConfig E (getInitConfigOptions E dir) path content1 = Inr (serviceDoc ''svc1'' ''./mod'')
     \<and> validateSchema (regexTest E) (configSchemaV0 E) [] (serviceDoc ''Bad Name!'' ''./mod'') = []
     \<and> validate E (serviceDoc ''Bad Name!'' ''./mod'') = VString (''Invalid service name: '' @ why)
     \<and> loadConfig E (getInitConfigOptions E dir) path content2
          = Inl (SemanticValidationError path (''Invalid service name: '' @ why))"
proof -
  have iff: "(validate E config = VTrue) \<longleftrightarrow> (validateAquaName E (configName config) = VTrue)"
    by (simp add: validate_def split: validity.splits)
  have msg: "\<forall>m. validateAquaName E (configName config) = VString m \<longrightarrow>
      validate E config = VString (''Invalid service name: '' @ m)"
    by (simp add: validate_def)
  have first: "\<forall>opts d. validateSchema (regexTest E) (latestSchema opts) [] d \<noteq> [] \<longrightarrow>
      validateConfig E opts path d
        = Inl (SchemaValidationError path (validateSchema (regexTest E) (latestSchema opts) [] d))"
    by (simp add: validateConfig_structural_first)
  have s1: "validateSchema (regexTest E) (configSchemaV0 E) [] (serviceDoc ''svc1'' ''./mod'') = []"
    by (rule serviceDoc_valid [OF noget])
  have s2: "validateSchema (regexTest E) (configSchemaV0 E) [] (serviceDoc ''Bad Name!'' ''./mod'') = []"
    by (rule serviceDoc_valid [OF noget])
  have v1: "validate E (serviceDoc ''svc1'' ''./mod'') = VTrue"
    using ok by (simp add: validate_def serviceDoc_name)
  have v2: "validate E (serviceDoc ''Bad Name!'' ''./mod'') = VString (''Invalid service name: '' @ why)"
    using bad by (simp add: validate_def serviceDoc_name)
  have l1: "loadConfig E (getInitConfigOptions E dir) path content1 = Inr (serviceDoc ''svc1'' ''./mod'')"
    using loadConfig_serviceDoc [OF noget parsed1] v1 by simp
  have l2: "loadConfig E (getInitConfigOptions E dir) path content2
      = Inl (SemanticValidationError path (''Invalid service name: '' @ why))"
    using loadConfig_serviceDoc [OF noget parsed2] v2 by simp
  from iff msg first s1 v1 l1 s2 v2 l2 show ?thesis by blast
qed

theorem validate_cites_service_name_witness:
  "validateAquaName sampleDeps ''svc1'' = VTrue
   \<and> validateAquaName sampleDeps ''Bad Name!''
       = VString ''Bad Name! must start with a lowercase letter and contain only letters, numbers, and underscores''
   \<and> loadConfig sampleDeps (getInitConfigOptions sampleDeps ''/proj/svc'') ''/proj/svc/service.yaml''
        (stringifyYaml (serviceDoc ''svc1'' ''./mod'')) = Inr (serviceDoc ''svc1'' ''./mod'')
   \<and> loadConfig sampleDeps (getInitConfigOptions sampleDeps ''/proj/svc'') ''/proj/svc/service.yaml''
        (stringifyYaml (serviceDoc ''Bad Name!'' ''./mod''))
      = Inl (SemanticValidationError ''/proj/svc/service.yaml''
          (''Invalid service name: ''
           @ ''Bad Name! must start with a lowercase letter and contain only letters, numbers, and underscores''))"
proof -
  note all = validate_cites_service_name
    [OF sample_name_ok sample_name_bad sample_noget sample_parse_svc1 sample_parse_bad,
     where config = JNull and dir = "''/proj/svc''" and path = "''/proj/svc/service.yaml''"]
  have l1: "loadConfig sampleDeps (getInitConfigOptions sampleDeps ''/proj/svc'') ''/proj/svc/service.yaml''
        (stringifyYaml (serviceDoc ''svc1'' ''./mod'')) = Inr (serviceDoc ''svc1'' ''./mod'')"
    using all by blast
  have l2: "loadConfig sampleDeps (getInitConfigOptions sampleDeps ''/proj/svc'') ''/proj/svc/service.yaml''
        (stringifyYaml (serviceDoc ''Bad Name!'' ''./mod''))
      = Inl (SemanticValidationError ''/proj/svc/service.yaml''
          (''Invalid service name: ''
           @ ''Bad Name! must start with a lowercase letter and contain only letters, numbers, and underscores''))"
    using all by blast
  from sample_name_ok sample_name_bad l1 l2 show ?thesis
    by blast
qed

text \<open>
  Claim C5, as amended. A service config whose \<open>modules\<close> object has no \<open>facade\<close> member
  does not conform to \<open>configSchemaV0\<close>, and the required member \<open>facade\<close> at the path
  \<open>modules\<close> is among its violations. It is the violation that is cited, the first one,
  when nothing before it in the validator's order is violated: the document has a
  \<open>version\<close> and a \<open>name\<close> that is a string, and no member other than \<open>name\<close>, \<open>modules\<close>,
  \<open>totalMemoryLimit\<close> and \<open>version\<close>.
\<close>

theorem missing_facade_is_reported:
  assumes modules: "getField d ''modules'' = Some (JObj ms)"
    and nofacade: "map_of ms FACADE_MODULE_NAME = None"
  shows "validateSchema (regexTest E) (configSchemaV0 E) [] d \<noteq> []
     \<and> VError [''modules''] (KRequired ''facade'')
         \<in> set (validateSchema (regexTest E) (configSchemaV0 E) [] d)
     \<and> (getField d ''version'' \<noteq> None
          \<and> (\<exists>n. getField d ''name'' = Some (JStr n))
          \<and> (\<forall>k. getField d k \<noteq> None \<longrightarrow>
                 k \<in> set [''name'', ''modules'', ''totalMemoryLimit'', ''version''])
          \<longrightarrow> firstError (validateSchema (regexTest E) (configSchemaV0 E) [] d)
                = Some (VError [''modules''] (KRequired ''facade'')))"
proof -
  from modules obtain kvs where d: "d = JObj kvs" and look: "map_of kvs ''modules'' = Some (JObj ms)"
    by (cases d) auto
  from nofacade have "VError ([] @ [''modules'']) (KRequired ''facade'')
      \<in> set (validateSchema (regexTest E) (modulesSchema E) ([] @ [''modules'']) (JObj ms))"
    by (rule modules_required_facade)
  with look have listed: "VError [''modules''] (KRequired ''facade'')
      \<in> set (validateSchema (regexTest E) (configSchemaV0 E) [] (JObj kvs))"
    by (simp add: configSchemaV0_unfold)
  have cited: "firstError (validateSchema (regexTest E) (configSchemaV0 E) [] (JObj kvs))
      = Some (VError [''modules''] (KRequired ''facade''))"
    if version: "map_of kvs ''version'' \<noteq> None"
      and name: "map_of kvs ''name'' = Some (JStr n)"
      and known: "\<forall>k. map_of kvs k \<noteq> None \<longrightarrow>
            k \<in> set [''name'', ''modules'', ''totalMemoryLimit'', ''version'']"
    for n
  proof -
    let ?props = "[(''name'', stringSchema), (''modules'', modulesSchema E),
        (''totalMemoryLimit'', Schema TString True (Some (BYTES_PATTERN E)) None [] [] Allowed),
        (''version'', Schema TNumber False None (Some (JNum 0)) [] [] Allowed)]"
    let ?required = "map (\<lambda>r. VError [] (KRequired r))
        (filter (\<lambda>r. map_of kvs r = None) [''version'', ''name'', ''modules''])"
    let ?additional = "concat (map (\<lambda>kv. if map_of ?props (fst kv) \<noteq> None then []
        else [VError [] (KAdditionalProperty (fst kv))]) kvs)"
    let ?inside = "concat (map (\<lambda>ps. case map_of kvs (fst ps) of None \<Rightarrow> []
        | Some x \<Rightarrow> validateSchema (regexTest E) (snd ps) ([] @ [fst ps]) x) ?props)"
    have parts: "validateSchema (regexTest E) (configSchemaV0 E) [] (JObj kvs)
        = ?required @ ?additional @ ?inside"
      unfolding configSchemaV0_unfold by (simp cong: if_cong)
    have required: "?required = []"
      using version name look by simp
    from known have "\<forall>k. map_of kvs k \<noteq> None \<longrightarrow> map_of ?props k \<noteq> None"
      by auto
    then have additional: "?additional = []"
      by (rule no_additional)
    from nofacade obtain rest where first:
      "validateSchema (regexTest E) (modulesSchema E) [''modules''] (JObj ms)
         = VError [''modules''] (KRequired ''facade'') # rest"
      using modules_first_error by blast
    have "\<exists>more. ?inside = VError [''modules''] (KRequired ''facade'') # more"
      using name look first by (simp add: stringSchema_valid)
    then obtain more where inside: "?inside = VError [''modules''] (KRequired ''facade'') # more"
      by blast
    show ?thesis
      unfolding parts required additional inside by (simp add: firstError_def)
  qed
  from d listed cited show ?thesis
    by auto
qed

theorem missing_facade_is_reported_witness:
  "getField (JObj [(''version'', JNum 0), (''name'', JStr ''svc1''),
              (''modules'', JObj [(''worker'', JObj [(''get'', JStr ''./mod'')])])]) ''modules''
     = Some (JObj [(''worker'', JObj [(''get'', JStr ''./mod'')])])
   \<and> map_of [(''worker'', JObj [(''get'', JStr ''./mod'')])] FACADE_MODULE_NAME = None
   \<and> VError [''modules''] (KRequired ''facade'')
       \<in> set (validateSchema (regexTest sampleDeps) (configSchemaV0 sampleDeps) []
                (JObj [(''version'', JNum 0), (''name'', JStr ''svc1''),
                       (''modules'', JObj [(''worker'', JObj [(''get'', JStr ''./mod'')])])]))
   \<and> firstError (validateSchema (regexTest sampleDeps) (configSchemaV0 sampleDeps) []
                (JObj [(''version'', JNum 0), (''name'', JStr ''svc1''),
                       (''modules'', JObj [(''worker'', JObj [(''get'', JStr ''./mod'')])])]))
       = Some (VError [''modules''] (KRequired ''facade''))"
proof -
  let ?ms = "[(''worker'', JObj [(''get'', JStr ''./mod'')])]"
  let ?d = "JObj [(''version'', JNum 0), (''name'', JStr ''svc1''), (''modules'', JObj ?ms)]"
  have modules: "getField ?d ''modules'' = Some (JObj ?ms)"
    by simp
  have nofacade: "map_of ?ms FACADE_MODULE_NAME = None"
    by (simp add: FACADE_MODULE_NAME_def)
  have version: "getField ?d ''version'' \<noteq> None"
    by simp
  have name: "\<exists>n. getField ?d ''name'' = Some (JStr n)"
    by simp
  have known: "\<forall>k. getField ?d k \<noteq> None \<longrightarrow>
      k \<in> set [''name'', ''modules'', ''totalMemoryLimit'', ''version'']"
    by (auto split: if_splits)
  note reported = missing_facade_is_reported [OF modules nofacade, of sampleDeps]
  have listed: "VError [''modules''] (KRequired ''facade'')
       \<in> set (validateSchema (regexTest sampleDeps) (configSchemaV0 sampleDeps) [] ?d)"
    using reported by blast
  have cited: "firstError (validateSchema (regexTest sampleDeps) (configSchemaV0 sampleDeps) [] ?d)
       = Some (VError [''modules''] (KRequired ''facade''))"
    using reported version name known by blast
  from modules nofacade listed cited show ?thesis
    by blast
qed

text \<open>
  Claim C5 as stated says that every such document fails citing the violation at
  \<open>modules\<close>. With a member \<open>zzz\<close> that the schema does not know, the document is refused
  for that member, which the validator finds first.
\<close>

theorem missing_facade_not_cited_counterexample:
  "getField (JObj [(''version'', JNum 0), (''name'', JStr ''svc1''),
              (''modules'', JObj [(''worker'', JObj [(''get'', JStr ''./mod'')])]),
              (''zzz'', JNum 1)]) ''modules''
     = Some (JObj [(''worker'', JObj [(''get'', JStr ''./mod'')])])
   \<and> map_of [(''worker'', JObj [(''get'', JStr ''./mod'')])] FACADE_MODULE_NAME = None
   \<and> firstError (validateSchema (regexTest sampleDeps) (configSchemaV0 sampleDeps) []
                (JObj [(''version'', JNum 0), (''name'', JStr ''svc1''),
                       (''modules'', JObj [(''worker'', JObj [(''get'', JStr ''./mod'')])]),
                       (''zzz'', JNum 1)]))
       = Some (VError [] (KAdditionalProperty ''zzz''))
   \<and> firstError (validateSchema (regexTest sampleDeps) (configSchemaV0 sampleDeps) []
                (JObj [(''version'', JNum 0), (''name'', JStr ''svc1''),
                       (''modules'', JObj [(''worker'', JObj [(''get'', JStr ''./mod'')])]),
                       (''zzz'', JNum 1)]))
       \<noteq> Some (VError [''modules''] (KRequired ''facade''))"
  by (simp add: configSchemaV0_unfold firstError_def FACADE_MODULE_NAME_def)

text \<open>
  Claim C6. For the service kind the migration chain is empty and the latest version is
  0. A document whose declared version has a schema is at version 0, the latest; applying
  the rest of the chain to it leaves it as it is, and so does the engine's chain runner.
\<close>

theorem service_migration_is_noop:
  "optMigrations (getInitConfigOptions E p) = []
   \<and> latestVersion (getInitConfigOptions E p) = 0
   \<and> (\<forall>v. versionIndex (getInitConfigOptions E p) d = Some v \<longrightarrow>
          v = latestVersion (getInitConfigOptions E p)
          \<and> fold (\<lambda>m x. m x) (drop v (optMigrations (getInitConfigOptions E p))) d = d
          \<and> migrateFrom (optMigrations (getInitConfigOptions E p))
               (latestVersion (getInitConfigOptions E p)) v d = Some d)"
proof -
  have chain: "optMigrations (getInitConfigOptions E p) = []"
    by (simp add: getInitConfigOptions_def migrations_def)
  have latest: "latestVersion (getInitConfigOptions E p) = 0"
    by (rule getInitConfigOptions_latest)
  have only: "v = 0" if "versionIndex (getInitConfigOptions E p) d = Some v" for v
    using that
    by (auto simp: versionIndex_def getInitConfigOptions_def split: option.splits if_splits)
  show ?thesis
    using chain latest only by auto
qed

theorem service_migration_is_noop_witness:
  "versionIndex (getInitConfigOptions sampleDeps ''/proj/svc'') (serviceDoc ''svc1'' ''./mod'') = Some 0
   \<and> migrateFrom (optMigrations (getInitConfigOptions sampleDeps ''/proj/svc''))
        (latestVersion (getInitConfigOptions sampleDeps ''/proj/svc'')) 0 (serviceDoc ''svc1'' ''./mod'')
      = Some (serviceDoc ''svc1'' ''./mod'')"
proof -
  have index: "versionIndex (getInitConfigOptions sampleDeps ''/proj/svc'') (serviceDoc ''svc1'' ''./mod'') = Some 0"
    by (rule serviceDoc_version)
  have same: "migrateFrom (optMigrations (getInitConfigOptions sampleDeps ''/proj/svc''))
        (latestVersion (getInitConfigOptions sampleDeps ''/proj/svc'')) 0 (serviceDoc ''svc1'' ''./mod'')
      = Some (serviceDoc ''svc1'' ''./mod'')"
    using service_migration_is_noop [of sampleDeps "''/proj/svc''" "serviceDoc ''svc1'' ''./mod''"] index
    by blast
  from index same show ?thesis
    by blast
qed

text \<open>
  Claim C7. When there is no file at the path of the service config, \<open>initServiceConfig\<close>
  (which gives the engine no default generator) returns \<open>null\<close> and the files are as the
  location resolver left them, and \<open>ensureServiceConfig\<close> ends the command with the
  message \<open>No service config found at\<close> followed by the name, path or URL it was asked
  for (the path from the project config where that has one).
\<close>

theorem service_config_not_found:
  assumes resolved: "ensureServiceAbsolutePath E
        (serviceOrServiceDirPathOrUrl maybeFluenceConfig nameOrPathOrUrl)
        (if maybeServicePathFromFluenceConfig maybeFluenceConfig nameOrPathOrUrl = Some ''string''
         then rootDir else cwd) f = (dir, f1)"
    and absent: "readFile f1 (configFilePath E dir (SERVICE_CONFIG_FILE_NAME E)) = None"
  shows "initServiceConfig E
           (serviceOrServiceDirPathOrUrl maybeFluenceConfig nameOrPathOrUrl)
           (if maybeServicePathFromFluenceConfig maybeFluenceConfig nameOrPathOrUrl = Some ''string''
            then rootDir else cwd) f = (Inr None, f1)
         \<and> ensureServiceConfig E rootDir cwd nameOrPathOrUrl maybeFluenceConfig f
             = (Inl (CommandError (''No service config found at ''
                   @ yellow E (serviceOrServiceDirPathOrUrl maybeFluenceConfig nameOrPathOrUrl))), f1)"
proof -
  have opened: "getConfigInitFunction E (getInitConfigOptions E dir) None f1 = (Inr None, f1)"
    using absent by (simp add: getConfigInitFunction_def getInitConfigOptions_def)
  have init: "initServiceConfig E
           (serviceOrServiceDirPathOrUrl maybeFluenceConfig nameOrPathOrUrl)
           (if maybeServicePathFromFluenceConfig maybeFluenceConfig nameOrPathOrUrl = Some ''string''
            then rootDir else cwd) f = (Inr None, f1)"
    using resolved opened by (simp add: initServiceConfig_def)
  then show ?thesis
    by (simp add: ensureServiceConfig_def)
qed

theorem service_config_not_found_witness:
  "ensureServiceAbsolutePath sampleDeps ''svc'' ''/proj'' Map.empty = (''/proj/svc'', Map.empty)
   \<and> readFile Map.empty (configFilePath sampleDeps ''/proj/svc'' (SERVICE_CONFIG_FILE_NAME sampleDeps)) = None
   \<and> ensureServiceConfig sampleDeps ''/project'' ''/proj'' ''svc'' None Map.empty
      = (Inl (CommandError (''No service config found at '' @ yellow sampleDeps ''svc'')), Map.empty)"
proof -
  have none: "maybeServicePathFromFluenceConfig None ''svc'' = None"
    by (simp add: maybeServicePathFromFluenceConfig_def optChain_def)
  then have asked: "serviceOrServiceDirPathOrUrl None ''svc'' = ''svc''"
    by (simp add: serviceOrServiceDirPathOrUrl_def)
  have resolved: "ensureServiceAbsolutePath sampleDeps ''svc'' ''/proj'' Map.empty = (''/proj/svc'', Map.empty)"
    by (simp add: sampleDeps_def)
  have absent: "readFile Map.empty (configFilePath sampleDeps ''/proj/svc'' (SERVICE_CONFIG_FILE_NAME sampleDeps)) = None"
    by (simp add: readFile_def)
  have resolved': "ensureServiceAbsolutePath sampleDeps
        (serviceOrServiceDirPathOrUrl None ''svc'')
        (if maybeServicePathFromFluenceConfig None ''svc'' = Some ''string'' then ''/project'' else ''/proj'')
        Map.empty = (''/proj/svc'', Map.empty)"
    using resolved none asked by simp
  note found = service_config_not_found [OF resolved' absent]
  have reported: "ensureServiceConfig sampleDeps ''/project'' ''/proj'' ''svc'' None Map.empty
      = (Inl (CommandError (''No service config found at '' @ yellow sampleDeps ''svc'')), Map.empty)"
    using found asked by simp
  from resolved absent reported show ?thesis
    by blast
qed

text \<open>
  Claim C8. A successful commit leaves at the handle's path the serialization of the
  value with its version forced to the latest, a document whose declared version is the
  latest (0 for the service kind); it changes no other path; and where the parser reads
  the serializer's output back, the file read back declares the latest version. The
  engine is the one modelled from the specification.
\<close>

theorem commit_writes_latest_version:
  assumes committed: "commit E opts h f = Inr f'"
  shows "readFile f' (cfgPath h) = Some (yamlStringify E (forceVersion (latestVersion opts) (cfgValue h)))
     \<and> declaredVersion (forceVersion (latestVersion opts) (cfgValue h)) = Some (of_nat (latestVersion opts))
     \<and> (\<forall>p. p \<noteq> cfgPath h \<longrightarrow> f' p = f p)
     \<and> (yamlParse E (yamlStringify E (forceVersion (latestVersion opts) (cfgValue h)))
           = Some (forceVersion (latestVersion opts) (cfgValue h)) \<longrightarrow>
         (\<exists>content d. readFile f' (cfgPath h) = Some content \<and> yamlParse E content = Some d
            \<and> declaredVersion d = Some (of_nat (latestVersion opts))))
     \<and> latestVersion (getInitConfigOptions E dir) = 0"
proof -
  from committed have f': "f' = f(cfgPath h \<mapsto> File (yamlStringify E (forceVersion (latestVersion opts) (cfgValue h))))"
    by (simp add: commit_def writeFile_result)
  then have written: "readFile f' (cfgPath h) = Some (yamlStringify E (forceVersion (latestVersion opts) (cfgValue h)))"
    by (simp add: readFile_written)
  have version: "declaredVersion (forceVersion (latestVersion opts) (cfgValue h)) = Some (of_nat (latestVersion opts))"
    by (rule declaredVersion_forceVersion)
  from f' have others: "\<forall>p. p \<noteq> cfgPath h \<longrightarrow> f' p = f p"
    by simp
  from written version others getInitConfigOptions_latest [of E dir] show ?thesis
    by auto
qed

theorem commit_writes_latest_version_witness:
  "commit sampleDeps (getInitConfigOptions sampleDeps ''/proj/svc'')
     \<lparr>cfgValue = setField ''name'' (JStr ''svc2'') (serviceDoc ''svc1'' ''./mod''),
      cfgPath = ''/proj/svc/service.yaml''\<rparr> sampleFs
     = Inr (sampleFs(''/proj/svc/service.yaml'' \<mapsto> File (stringifyYaml (serviceDoc ''svc2'' ''./mod''))))
   \<and> (\<exists>content d.
         readFile (sampleFs(''/proj/svc/service.yaml'' \<mapsto> File (stringifyYaml (serviceDoc ''svc2'' ''./mod''))))
           ''/proj/svc/service.yaml'' = Some content
         \<and> yamlParse sampleDeps content = Some d
         \<and> declaredVersion d = Some 0)"
proof -
  let ?opts = "getInitConfigOptions sampleDeps ''/proj/svc''"
  let ?h = "\<lparr>cfgValue = setField ''name'' (JStr ''svc2'') (serviceDoc ''svc1'' ''./mod''),
      cfgPath = ''/proj/svc/service.yaml''\<rparr>"
  let ?f2 = "sampleFs(''/proj/svc/service.yaml'' \<mapsto> File (stringifyYaml (serviceDoc ''svc2'' ''./mod'')))"
  have committed: "commit sampleDeps ?opts ?h sampleFs = Inr ?f2"
    by (rule sample_commit)
  have format: "yamlParse sampleDeps (yamlStringify sampleDeps (forceVersion (latestVersion ?opts) (cfgValue ?h)))
      = Some (forceVersion (latestVersion ?opts) (cfgValue ?h))"
    using sample_parse_svc2 sample_mutated by (simp add: sampleDeps_def)
  note written = commit_writes_latest_version [OF committed, of "''/proj/svc''"]
  from written format have "\<exists>content d. readFile ?f2 (cfgPath ?h) = Some content
      \<and> yamlParse sampleDeps content = Some d
      \<and> declaredVersion d = Some (of_nat (latestVersion ?opts))"
    by blast
  then have reread: "\<exists>content d. readFile ?f2 ''/proj/svc/service.yaml'' = Some content
      \<and> yamlParse sampleDeps content = Some d \<and> declaredVersion d = Some 0"
    by (simp add: getInitConfigOptions_latest)
  from committed reread show ?thesis
    by blast
qed

text \<open>
  Claim C9. When the project path exists, is a directory and has an entry, \<open>init\<close> ends
  with the error \<open>Directory ... is not empty. Please, init in an empty directory.\<close>, which
  names the directory. The state it leaves differs from the one it found by the analytics
  event alone: the files, the project root and the log are as before, whatever the
  collaborators would do, since the check precedes every write and every collaborator
  that could create a config.
\<close>

theorem init_rejects_non_empty_directory:
  assumes there: "existsSync (files w) (initProjectPath D options)"
    and dir: "isDirectory (files w) (initProjectPath D options)"
    and entries: "readdir (files w) (initProjectPath D options) \<noteq> []"
  shows "init E D options w =
           (Inl (CommandError (''Directory '' @ colorYellow D (initProjectPath D options)
                   @ '' is not empty. Please, init in an empty directory.'')),
            w\<lparr>countlyEvents := countlyEvents w
                 @ [''init:template:''
                    @ templateName (case template options of Some t \<Rightarrow> t | None \<Rightarrow> selectTemplateAnswer D)]\<rparr>)
         \<and> files (snd (init E D options w)) = files w
         \<and> projectRootDir (snd (init E D options w)) = projectRootDir w
         \<and> logged (snd (init E D options w)) = logged w"
  using assms
  by (simp add: init_def Let_def bindIO_def countlyAddEvent_def failIO_def notEmptyMessage_def)

theorem init_rejects_non_empty_directory_witness:
  "existsSync (files sampleWorld) ''/home/user/app''
   \<and> isDirectory (files sampleWorld) ''/home/user/app''
   \<and> readdir (files sampleWorld) ''/home/user/app'' \<noteq> []
   \<and> fst (init sampleDeps sampleInitDeps \<lparr>maybeProjectPath = None, template = None\<rparr> sampleWorld)
       = Inl (CommandError ''Directory /home/user/app is not empty. Please, init in an empty directory.'')
   \<and> files (snd (init sampleDeps sampleInitDeps \<lparr>maybeProjectPath = None, template = None\<rparr> sampleWorld))
       = files sampleWorld"
proof -
  let ?options = "\<lparr>maybeProjectPath = None, template = None\<rparr>"
  have there: "existsSync (files sampleWorld) ''/home/user/app''"
    by (simp add: sampleWorld_def sampleProjectFs_def existsSync_def)
  have dir: "isDirectory (files sampleWorld) ''/home/user/app''"
    by (simp add: sampleWorld_def sampleProjectFs_def isDirectory_def)
  have entries: "readdir (files sampleWorld) ''/home/user/app'' \<noteq> []"
    by (simp add: sampleWorld_def sampleProjectFs_def readdir_def)
  have yellow: "colorYellow sampleInitDeps ''/home/user/app'' = ''/home/user/app''"
    by (simp add: sampleInitDeps_def)
  note rejected = init_rejects_non_empty_directory [of sampleWorld sampleInitDeps ?options sampleDeps]
  have message: "fst (init sampleDeps sampleInitDeps ?options sampleWorld)
       = Inl (CommandError ''Directory /home/user/app is not empty. Please, init in an empty directory.'')"
    using rejected there dir entries yellow unfolding sample_project_path by simp
  have unchanged: "files (snd (init sampleDeps sampleInitDeps ?options sampleWorld)) = files sampleWorld"
    using rejected there dir entries unfolding sample_project_path by blast
  from there dir entries message unchanged show ?thesis
    by blast
qed

text \<open>
  Claim C10, as amended. \<open>resolveEnvVariable\<close> returns the default when the variable is
  unset; returns the variable's value when it is set and the validity predicate accepts
  it; throws, naming the variable and its value, exactly when it is set and invalid; and
  whatever it returns is the default of an unset variable or the valid value of a set one.
  After the module has been loaded without an error, \<open>FLUENCE_ENV\<close> is a known network
  name, \<open>local\<close> or \<open>kras\<close>.
\<close>

theorem resolveEnvVariable_cases:
  "(env variableName = None \<longrightarrow> resolveEnvVariable env variableName isValid d = Inr d)
   \<and> (\<forall>v. env variableName = Some v \<and> isValid v \<longrightarrow>
          resolveEnvVariable env variableName isValid d = Inr v)
   \<and> (\<forall>v. env variableName = Some v \<and> \<not> isValid v \<longrightarrow>
          resolveEnvVariable env variableName isValid d =
            Inl (JSError (''Invalid environment variable: '' @ variableName @ ''='' @ dq @ v @ dq)))
   \<and> ((\<exists>e. resolveEnvVariable env variableName isValid d = Inl e)
        \<longleftrightarrow> (\<exists>v. env variableName = Some v \<and> \<not> isValid v))
   \<and> (\<forall>env'. setupEnvironment dotenvConfig NETWORKS env0 = Inr env' \<longrightarrow>
          (\<exists>v. env' FLUENCE_ENV = Some v \<and> (v \<in> set NETWORKS \<or> v = ''local'' \<or> v = ''kras'')))"
proof -
  have unset: "env variableName = None \<longrightarrow> resolveEnvVariable env variableName isValid d = Inr d"
    by (simp add: resolveEnvVariable_def)
  have valid: "\<forall>v. env variableName = Some v \<and> isValid v \<longrightarrow>
      resolveEnvVariable env variableName isValid d = Inr v"
    by (simp add: resolveEnvVariable_def)
  have invalid: "\<forall>v. env variableName = Some v \<and> \<not> isValid v \<longrightarrow>
      resolveEnvVariable env variableName isValid d =
        Inl (JSError (''Invalid environment variable: '' @ variableName @ ''='' @ dq @ v @ dq))"
    by (simp add: resolveEnvVariable_def)
  have throws: "(\<exists>e. resolveEnvVariable env variableName isValid d = Inl e)
      \<longleftrightarrow> (\<exists>v. env variableName = Some v \<and> \<not> isValid v)"
    by (cases "env variableName") (auto simp: resolveEnvVariable_def)
  have after: "\<forall>env'. setupEnvironment dotenvConfig NETWORKS env0 = Inr env' \<longrightarrow>
      (\<exists>v. env' FLUENCE_ENV = Some v \<and> (v \<in> set NETWORKS \<or> v = ''local'' \<or> v = ''kras''))"
  proof (intro allI impI)
    fix env'
    assume ok: "setupEnvironment dotenvConfig NETWORKS env0 = Inr env'"
    show "\<exists>v. env' FLUENCE_ENV = Some v \<and> (v \<in> set NETWORKS \<or> v = ''local'' \<or> v = ''kras'')"
    proof (cases "dotenvConfig env0 FLUENCE_ENV")
      case None
      with ok have "env' = (dotenvConfig env0)(FLUENCE_ENV \<mapsto> ''kras'')"
        by (auto simp: setupEnvironment_def resolveEnvVariable_def)
      then show ?thesis by simp
    next
      case (Some x)
      with ok have "isFluenceEnv NETWORKS x" and "env' = (dotenvConfig env0)(FLUENCE_ENV \<mapsto> x)"
        by (auto simp: setupEnvironment_def resolveEnvVariable_def split: if_splits)
      then show ?thesis by (auto simp: isFluenceEnv_def list_ex_iff)
    qed
  qed
  from unset valid invalid throws after show ?thesis by blast
qed

theorem resolveEnvVariable_cases_witness:
  "[FLUENCE_ENV \<mapsto> ''stage''] FLUENCE_ENV = Some ''stage''
   \<and> isFluenceEnv [''kras'', ''stage'', ''testnet''] ''stage''
   \<and> resolveEnvVariable [FLUENCE_ENV \<mapsto> ''stage''] FLUENCE_ENV (isFluenceEnv [''kras'', ''stage'', ''testnet'']) ''kras''
       = Inr ''stage''
   \<and> resolveEnvVariable Map.empty FLUENCE_ENV (isFluenceEnv [''kras'', ''stage'', ''testnet'']) ''kras''
       = Inr ''kras''
   \<and> resolveEnvVariable [FLUENCE_ENV \<mapsto> ''mainnet''] FLUENCE_ENV (isFluenceEnv [''kras'', ''stage'', ''testnet'']) ''kras''
       = Inl (JSError (''Invalid environment variable: FLUENCE_ENV='' @ dq @ ''mainnet'' @ dq))"
proof -
  have set1: "[FLUENCE_ENV \<mapsto> ''stage''] FLUENCE_ENV = Some ''stage''" by simp
  have ok1: "isFluenceEnv [''kras'', ''stage'', ''testnet''] ''stage''" by (simp add: isFluenceEnv_def)
  have set2: "[FLUENCE_ENV \<mapsto> ''mainnet''] FLUENCE_ENV = Some ''mainnet''" by simp
  have bad2: "\<not> isFluenceEnv [''kras'', ''stage'', ''testnet''] ''mainnet''" by (simp add: isFluenceEnv_def)
  have unset: "(Map.empty :: string \<Rightarrow> string option) FLUENCE_ENV = None" by simp
  note a = resolveEnvVariable_cases [of "[FLUENCE_ENV \<mapsto> ''stage'']" FLUENCE_ENV
      "isFluenceEnv [''kras'', ''stage'', ''testnet'']" "''kras''" id "[]" Map.empty]
  note b = resolveEnvVariable_cases [of Map.empty FLUENCE_ENV
      "isFluenceEnv [''kras'', ''stage'', ''testnet'']" "''kras''" id "[]" Map.empty]
  note c = resolveEnvVariable_cases [of "[FLUENCE_ENV \<mapsto> ''mainnet'']" FLUENCE_ENV
      "isFluenceEnv [''kras'', ''stage'', ''testnet'']" "''kras''" id "[]" Map.empty]
  from a set1 ok1 have r1: "resolveEnvVariable [FLUENCE_ENV \<mapsto> ''stage''] FLUENCE_ENV
      (isFluenceEnv [''kras'', ''stage'', ''testnet'']) ''kras'' = Inr ''stage''" by blast
  from b unset have r2: "resolveEnvVariable Map.empty FLUENCE_ENV
      (isFluenceEnv [''kras'', ''stage'', ''testnet'']) ''kras'' = Inr ''kras''" by blast
  from c set2 bad2 have r3: "resolveEnvVariable [FLUENCE_ENV \<mapsto> ''mainnet''] FLUENCE_ENV
      (isFluenceEnv [''kras'', ''stage'', ''testnet'']) ''kras''
       = Inl (JSError (''Invalid environment variable: '' @ FLUENCE_ENV @ ''='' @ dq @ ''mainnet'' @ dq))" by blast
  from set1 ok1 r1 r2 r3 show ?thesis by (simp add: FLUENCE_ENV_def)
qed

text \<open>
  Claim C10 as stated says that the default is returned exactly when the variable is
  unset. A variable set to a valid value that is the default's gives the default as well:
  \<open>FLUENCE_ENV=kras\<close>.
\<close>

theorem resolveEnvVariable_default_counterexample:
  "\<not> (\<forall>env variableName isValid d.
        (resolveEnvVariable env variableName isValid d = Inr d) \<longleftrightarrow> (env variableName = None))"
proof
  assume all: "\<forall>env variableName isValid d.
        (resolveEnvVariable env variableName isValid d = Inr d) \<longleftrightarrow> (env variableName = None)"
  have "resolveEnvVariable [FLUENCE_ENV \<mapsto> ''kras''] FLUENCE_ENV
          (isFluenceEnv [''kras'', ''stage'', ''testnet'']) ''kras'' = Inr ''kras''"
    by (simp add: resolveEnvVariable_def isFluenceEnv_def)
  with all have "[FLUENCE_ENV \<mapsto> ''kras''] FLUENCE_ENV = None" by blast
  then show False by simp
qed

end
